theory Spec2Isabelle
  imports Main "HOL-Library.Sublist"
begin

section \<open>Tables\<close>

text \<open>
  A cell of a pandas table is either null (\<open>None\<close>, \<open>NaN\<close>, \<open>NaT\<close>: everything
  \<open>pd.isna\<close> accepts), a string, a number or a timestamp. Numbers are integers here;
  floating point is outside this development. A timestamp is the number of nanoseconds
  since the epoch, as pandas stores it.
\<close>

type_synonym timestamp = int

datatype cell = Null | Str string | Num int | Date timestamp

text \<open>
  A \<open>DataFrame\<close> is kept row-major: the column labels in order, and one list of cells
  per row. \<open>len(df)\<close> is the number of rows, also when there is no column.
\<close>

record dataframe =
  columns :: "string list"
  rows :: "cell list list"

definition nrows :: "dataframe \<Rightarrow> nat" where
  "nrows df = length (rows df)"

text \<open>
  The operations below agree with pandas on tables whose column labels are unique and
  whose rows are as long as the header; what pandas does with repeated labels is not
  modelled.
\<close>

definition wf_df :: "dataframe \<Rightarrow> bool" where
  "wf_df df = (distinct (columns df) \<and> list_all (\<lambda>r. length r = length (columns df)) (rows df))"

text \<open>The value a row holds under a label; null when the row has no such label.\<close>

definition cell_at :: "string list \<Rightarrow> cell list \<Rightarrow> string \<Rightarrow> cell" where
  "cell_at cols r c = (case map_of (zip cols r) c of None \<Rightarrow> Null | Some v \<Rightarrow> v)"

text \<open>\<open>df[c]\<close>: the series under one label.\<close>

definition get_column :: "dataframe \<Rightarrow> string \<Rightarrow> cell list" where
  "get_column df c = map (\<lambda>r. cell_at (columns df) r c) (rows df)"

section \<open>The error ledger (class ErrorHandler)\<close>

text \<open>
  Every record of the ledger carries its stage and its message. The messages are
  f-strings in the source; a message is represented by a constructor that names the
  template and carries the interpolated values. Timestamps and tracebacks are left out.
\<close>

datatype details = NoDetails | Details string | AvailableCols "string list"

datatype error_msg =
    FileNotFound string
  | FailedToReadFile string
  | UnexpectedErrorExtracting string
  | NoColumnsCouldBeMapped
  | ErrorDuringColumnMapping
  | UnexpectedErrorProcessing string
  | NoDataSourcesToConsolidate
  | FailedToConsolidateData
  | NoConsolidatedDataToTransform
  | TransformationFailed
  | NoTransformedDataToLoad
  | FailedToSaveData
  | ExtractAndMapPhaseFailed
  | ConsolidationPhaseFailed
  | TransformationPhaseFailed
  | LoadPhaseFailed
  | UnexpectedPipelineError

datatype warning_msg =
    Issues "string list"
  | MissingColumnsInMapping "string list"
  | RequestedColumnsNotInData "string list"

datatype action =
    RectifiedDataTypes nat
  | RemovedDuplicateRows
  | FilledMissingValues int string cell

record error_record =
  err_stage :: string
  err_msg :: error_msg
  err_details :: details

record warning_record =
  warn_stage :: string
  warn_msg :: warning_msg

record correction_record =
  corr_stage :: string
  corr_action :: action
  affected_rows :: int

record error_handler =
  errors :: "error_record list"
  warnings :: "warning_record list"
  corrections :: "correction_record list"

definition new_error_handler :: error_handler where
  "new_error_handler = \<lparr>errors = [], warnings = [], corrections = []\<rparr>"

definition log_error :: "string \<Rightarrow> error_msg \<Rightarrow> details \<Rightarrow> error_handler \<Rightarrow> error_handler" where
  "log_error stage msg det h =
     h\<lparr>errors := errors h @ [\<lparr>err_stage = stage, err_msg = msg, err_details = det\<rparr>]\<rparr>"

definition log_warning :: "string \<Rightarrow> warning_msg \<Rightarrow> error_handler \<Rightarrow> error_handler" where
  "log_warning stage msg h =
     h\<lparr>warnings := warnings h @ [\<lparr>warn_stage = stage, warn_msg = msg\<rparr>]\<rparr>"

definition log_correction :: "string \<Rightarrow> action \<Rightarrow> int \<Rightarrow> error_handler \<Rightarrow> error_handler" where
  "log_correction stage act n h =
     h\<lparr>corrections := corrections h @ [\<lparr>corr_stage = stage, corr_action = act, affected_rows = n\<rparr>]\<rparr>"

section \<open>Python and pandas primitives\<close>

datatype py_exn = KeyError string | ValueError string | TypeError string | OSError string

fun str_exn :: "py_exn \<Rightarrow> string" where
  "str_exn (KeyError m) = m"
| "str_exn (ValueError m) = m"
| "str_exn (TypeError m) = m"
| "str_exn (OSError m) = m"

text \<open>\<open>str.lower\<close> and \<open>str.strip\<close> on ASCII text; \<open>sub in s\<close> on strings.\<close>

definition lower_char :: "char \<Rightarrow> char" where
  "lower_char c =
     (let n = (of_char c :: nat) in if 65 \<le> n \<and> n \<le> 90 then char_of (n + 32) else c)"

definition lower :: "string \<Rightarrow> string" where
  "lower s = map lower_char s"

definition is_space :: "char \<Rightarrow> bool" where
  "is_space c = (let n = (of_char c :: nat) in (9 \<le> n \<and> n \<le> 13) \<or> (28 \<le> n \<and> n \<le> 32))"

definition strip :: "string \<Rightarrow> string" where
  "strip s = rev (dropWhile is_space (rev (dropWhile is_space s)))"

fun str_in :: "string \<Rightarrow> string \<Rightarrow> bool" where
  "str_in sub [] = (sub = [])"
| "str_in sub (x # xs) = (prefix sub (x # xs) \<or> str_in sub xs)"

text \<open>\<open>str(n)\<close> for a Python integer.\<close>

definition digit_char :: "nat \<Rightarrow> char" where
  "digit_char d = char_of (48 + d)"

fun str_nat :: "nat \<Rightarrow> string" where
  "str_nat n = (if n < 10 then [digit_char n] else str_nat (n div 10) @ [digit_char (n mod 10)])"

declare str_nat.simps [simp del]

definition str_int :: "int \<Rightarrow> string" where
  "str_int i = (if i < 0 then CHR ''-'' # str_nat (nat (- i)) else str_nat (nat i))"

text \<open>
  What the pipeline asks of pandas about single values is a parameter of the model:
  parsing a non-null value as a timestamp or as a number under \<open>errors='coerce'\<close>
  (\<open>None\<close> is a value that cannot be parsed), and the two ways a timestamp is printed.
  Conversions of a series act cell by cell.
\<close>

record pandas =
  to_datetime :: "cell \<Rightarrow> timestamp option"
  to_numeric :: "cell \<Rightarrow> int option"
  strftime_ymd :: "timestamp \<Rightarrow> string"
  str_timestamp :: "timestamp \<Rightarrow> string"

definition coerce_datetime :: "pandas \<Rightarrow> cell \<Rightarrow> cell" where
  "coerce_datetime p v =
     (if v = Null then Null
      else case to_datetime p v of None \<Rightarrow> Null | Some t \<Rightarrow> Date t)"

definition coerce_numeric :: "pandas \<Rightarrow> cell \<Rightarrow> cell" where
  "coerce_numeric p v =
     (if v = Null then Null
      else case to_numeric p v of None \<Rightarrow> Null | Some n \<Rightarrow> Num n)"

text \<open>\<open>df[c] = f(df[c])\<close> for a cell-wise \<open>f\<close> and an existing label \<open>c\<close>.\<close>

definition apply_column :: "(cell \<Rightarrow> cell) \<Rightarrow> string \<Rightarrow> dataframe \<Rightarrow> dataframe" where
  "apply_column f c df =
     df\<lparr>rows := map (\<lambda>r. map2 (\<lambda>n x. if n = c then f x else x) (columns df) r) (rows df)\<rparr>"

text \<open>\<open>df[c] = v\<close> for a scalar \<open>v\<close>: overwrites the column, or appends a new last one.\<close>

definition assign_scalar :: "string \<Rightarrow> cell \<Rightarrow> dataframe \<Rightarrow> dataframe" where
  "assign_scalar c v df =
     (if c \<in> set (columns df) then apply_column (\<lambda>_. v) c df
      else \<lparr>columns = columns df @ [c], rows = map (\<lambda>r. r @ [v]) (rows df)\<rparr>)"

text \<open>\<open>df[names]\<close>: the listed columns, in the order listed.\<close>

definition select_columns :: "string list \<Rightarrow> dataframe \<Rightarrow> dataframe" where
  "select_columns names df =
     \<lparr>columns = names, rows = map (\<lambda>r. map (cell_at (columns df) r) names) (rows df)\<rparr>"

text \<open>\<open>df.rename(columns=m)\<close>: labels that are keys of \<open>m\<close> are replaced.\<close>

definition rename_columns :: "(string \<times> string) list \<Rightarrow> dataframe \<Rightarrow> dataframe" where
  "rename_columns m df =
     df\<lparr>columns := map (\<lambda>c. case map_of m c of None \<Rightarrow> c | Some c' \<Rightarrow> c') (columns df)\<rparr>"

text \<open>
  \<open>drop_duplicates\<close> keeps the first occurrence of every element, in order. On the rows
  of a table it is \<open>df.drop_duplicates()\<close>, which compares whole rows and takes two
  nulls for equal.
\<close>

fun drop_duplicates :: "'a list \<Rightarrow> 'a list" where
  "drop_duplicates [] = []"
| "drop_duplicates (r # rs) = r # drop_duplicates (filter (\<lambda>x. x \<noteq> r) rs)"

text \<open>
  \<open>pd.concat(dfs, ignore_index=True, sort=False)\<close>: the labels of all tables in the
  order of their first appearance, and the rows of the tables one after the other, each
  row null under the labels its table does not have.
\<close>

definition union_columns :: "dataframe list \<Rightarrow> string list" where
  "union_columns dfs = drop_duplicates (concat (map columns dfs))"

definition reindex_row :: "string list \<Rightarrow> string list \<Rightarrow> cell list \<Rightarrow> cell list" where
  "reindex_row cols allcols r = map (cell_at cols r) allcols"

definition pd_concat :: "dataframe list \<Rightarrow> dataframe" where
  "pd_concat dfs =
     \<lparr>columns = union_columns dfs,
      rows = concat (map (\<lambda>df. map (reindex_row (columns df) (union_columns dfs)) (rows df)) dfs)\<rparr>"

section \<open>Rectification (class DataValidator)\<close>

text \<open>
  The input files are the environment. A file is missing, or reading it raises (an
  unsupported suffix or a parse failure, with the text of the exception), or it reads as
  a table. The validator and the pipeline share one ledger, which is passed along.
\<close>

datatype read_result = Missing | ReadFails string | Frame dataframe

definition validate_file_exists ::
  "(string \<Rightarrow> read_result) \<Rightarrow> string \<Rightarrow> error_handler \<Rightarrow> bool \<times> error_handler" where
  "validate_file_exists files file_path h =
     (if files file_path = Missing
      then (False, log_error ''validation'' (FileNotFound file_path)
                     (Details ''This file is required for processing'') h)
      else (True, h))"

definition validate_dataframe :: "dataframe \<Rightarrow> string \<Rightarrow> error_handler \<Rightarrow> bool \<times> error_handler" where
  "validate_dataframe df source_name h =
     (let issues =
            (if columns df = [] \<or> rows df = [] then [''DataFrame is empty''] else []) @
            (if length (columns df) = 0 then [''DataFrame has no columns''] else []) @
            (if nrows df = 0 then [''DataFrame has no rows''] else [])
      in if issues \<noteq> [] then (False, log_warning source_name (Issues issues) h)
         else (True, h))"

subsection \<open>Data types\<close>

definition is_date_column :: "string \<Rightarrow> bool" where
  "is_date_column col = (str_in ''date'' (lower col) \<or> str_in ''dob'' (lower col))"

definition is_numeric_column :: "string \<Rightarrow> bool" where
  "is_numeric_column col =
     (str_in ''salary'' (lower col) \<or>
      col \<in> set [''salary'', ''pay'', ''annual_salary'', ''compensation''])"

text \<open>
  The loop over \<open>df.columns\<close>, with the table and \<open>corrections_made\<close> as its state.
  The \<open>except\<close> branch of the source has no counterpart: the conversions of the
  model do not raise.
\<close>

fun rectify_data_types_loop :: "pandas \<Rightarrow> string list \<Rightarrow> dataframe \<times> nat \<Rightarrow> dataframe \<times> nat" where
  "rectify_data_types_loop p [] acc = acc"
| "rectify_data_types_loop p (col # cols) (df, corrections_made) =
     (if is_date_column col
      then rectify_data_types_loop p cols (apply_column (coerce_datetime p) col df, corrections_made + 1)
      else if is_numeric_column col
      then rectify_data_types_loop p cols (apply_column (coerce_numeric p) col df, corrections_made + 1)
      else rectify_data_types_loop p cols (df, corrections_made))"

definition rectify_data_types :: "pandas \<Rightarrow> dataframe \<Rightarrow> error_handler \<Rightarrow> dataframe \<times> error_handler" where
  "rectify_data_types p df h =
     (case rectify_data_types_loop p (columns df) (df, 0) of
        (df', corrections_made) \<Rightarrow>
          if corrections_made > 0
          then (df', log_correction ''data_type_fix'' (RectifiedDataTypes corrections_made)
                       (int (nrows df')) h)
          else (df', h))"

subsection \<open>Duplicate rows\<close>

definition rectify_duplicates ::
  "dataframe \<Rightarrow> string \<Rightarrow> error_handler \<Rightarrow> dataframe \<times> error_handler" where
  "rectify_duplicates df source_name h =
     (let initial_count = int (nrows df);
          df' = df\<lparr>rows := drop_duplicates (rows df)\<rparr>;
          removed = initial_count - int (nrows df')
      in if removed > 0
         then (df', log_correction source_name RemovedDuplicateRows removed h)
         else (df', h))"

subsection \<open>Missing values\<close>

text \<open>
  \<open>series.fillna(v)\<close> replaces the nulls of the series by \<open>v\<close>; pandas refuses
  \<open>None\<close> as the fill value with a \<open>ValueError\<close>, which the source does not catch
  here. The fill rules are a dictionary, kept as the list of its items.
\<close>

definition fillna :: "cell \<Rightarrow> cell \<Rightarrow> cell" where
  "fillna fill_value x = (if x = Null then fill_value else x)"

definition isna_sum :: "cell list \<Rightarrow> int" where
  "isna_sum xs = int (length (filter (\<lambda>x. x = Null) xs))"

fun rectify_missing_values_loop ::
  "(string \<times> cell) list \<Rightarrow> dataframe \<Rightarrow> error_handler \<Rightarrow> (py_exn + dataframe) \<times> error_handler" where
  "rectify_missing_values_loop [] df h = (Inr df, h)"
| "rectify_missing_values_loop ((col, fill_value) # rules) df h =
     (if col \<in> set (columns df)
      then let missing_count = isna_sum (get_column df col)
           in if missing_count > 0
              then if fill_value = Null
                   then (Inl (ValueError ''Must specify a fill value''), h)
                   else rectify_missing_values_loop rules
                          (apply_column (fillna fill_value) col df)
                          (log_correction ''missing_values''
                             (FilledMissingValues missing_count col fill_value) missing_count h)
              else rectify_missing_values_loop rules df h
      else rectify_missing_values_loop rules df h)"

definition rectify_missing_values ::
  "dataframe \<Rightarrow> (string \<times> cell) list option \<Rightarrow> error_handler \<Rightarrow> (py_exn + dataframe) \<times> error_handler" where
  "rectify_missing_values df fill_rules h =
     rectify_missing_values_loop (case fill_rules of None \<Rightarrow> [] | Some rules \<Rightarrow> rules) df h"

section \<open>The pipeline (class RobustMultiSourceETL)\<close>

text \<open>
  The registry \<open>data_sources\<close> is a dictionary in insertion order, kept as the list of
  its items; statuses are the strings of the source. The configuration of a run is a
  dictionary too: each key that \<open>transform\<close> reads is present or absent, and
  \<open>other_keys\<close> holds the keys it does not read, which still make the dictionary
  non-empty.
\<close>

record source_info =
  filename :: string
  mapping :: "(string \<times> string) list"
  data :: "dataframe option"
  status :: string

record etl =
  error_handler :: error_handler
  data_sources :: "(string \<times> source_info) list"
  consolidated_data :: "dataframe option"
  transformed_data :: "dataframe option"
  pipeline_status :: string

record config =
  date_columns :: "string list option"
  remove_duplicates :: "bool option"
  fill_missing_values :: "(string \<times> cell) list option"
  final_columns :: "string list option"
  other_keys :: "string list"

text \<open>The truth value of a configuration: \<open>None\<close> and the empty dictionary are false.\<close>

definition config_truthy :: "config option \<Rightarrow> bool" where
  "config_truthy config =
     (case config of
        None \<Rightarrow> False
      | Some c \<Rightarrow> date_columns c \<noteq> None \<or> remove_duplicates c \<noteq> None \<or>
                 fill_missing_values c \<noteq> None \<or> final_columns c \<noteq> None \<or> other_keys c \<noteq> [])"

text \<open>
  The outside world of a run: the input files, whether writing the output file raises,
  whether writing the error log raises; and what has been written.
\<close>

record world =
  input_files :: "string \<Rightarrow> read_result"
  to_csv_raises :: "string \<Rightarrow> string option"
  error_log_raises :: "py_exn option"

record error_report =
  total_errors :: nat
  total_warnings :: nat
  total_corrections :: nat
  report_errors :: "error_record list"
  report_warnings :: "warning_record list"
  report_corrections :: "correction_record list"

record disk =
  csv_files :: "(string \<times> dataframe) list"
  error_logs :: "error_report list"

definition get_error_report :: "error_handler \<Rightarrow> error_report" where
  "get_error_report h =
     \<lparr>total_errors = length (errors h), total_warnings = length (warnings h),
      total_corrections = length (corrections h), report_errors = errors h,
      report_warnings = warnings h, report_corrections = corrections h\<rparr>"

definition save_error_log :: "world \<Rightarrow> error_handler \<Rightarrow> disk \<Rightarrow> py_exn + disk" where
  "save_error_log w h d =
     (case error_log_raises w of
        Some e \<Rightarrow> Inl e
      | None \<Rightarrow> Inr (d\<lparr>error_logs := error_logs d @ [get_error_report h]\<rparr>))"

definition init_etl :: etl where
  "init_etl =
     \<lparr>error_handler = new_error_handler, data_sources = [], consolidated_data = None,
      transformed_data = None, pipeline_status = ''initialized''\<rparr>"

text \<open>\<open>d[k] = v\<close> on a dictionary: the key keeps its place, a new key goes last.\<close>

fun dict_set :: "'k \<Rightarrow> 'v \<Rightarrow> ('k \<times> 'v) list \<Rightarrow> ('k \<times> 'v) list" where
  "dict_set k v [] = [(k, v)]"
| "dict_set k v ((k', v') # kvs) = (if k = k' then (k, v) # kvs else (k', v') # dict_set k v kvs)"

definition register_source :: "string \<Rightarrow> string \<Rightarrow> (string \<times> string) list \<Rightarrow> etl \<Rightarrow> etl" where
  "register_source source_name fname column_mapping s =
     s\<lparr>data_sources :=
         dict_set source_name
           \<lparr>filename = fname, mapping = column_mapping, data = None, status = ''registered''\<rparr>
           (data_sources s)\<rparr>"

text \<open>\<open>self.data_sources[source_name]['status'] = st\<close> and the same for \<open>'data'\<close>.\<close>

definition set_status :: "string \<Rightarrow> string \<Rightarrow> etl \<Rightarrow> etl" where
  "set_status source_name st s =
     s\<lparr>data_sources :=
         map (\<lambda>(k, i). if k = source_name then (k, i\<lparr>status := st\<rparr>) else (k, i)) (data_sources s)\<rparr>"

definition set_data :: "string \<Rightarrow> dataframe \<Rightarrow> etl \<Rightarrow> etl" where
  "set_data source_name df s =
     s\<lparr>data_sources :=
         map (\<lambda>(k, i). if k = source_name then (k, i\<lparr>data := Some df\<rparr>) else (k, i)) (data_sources s)\<rparr>"

definition with_handler :: "(error_handler \<Rightarrow> error_handler) \<Rightarrow> etl \<Rightarrow> etl" where
  "with_handler f s = s\<lparr>error_handler := f (error_handler s)\<rparr>"

subsection \<open>Extraction\<close>

text \<open>
  A method that can raise returns the exception or its value, and the state it leaves
  behind in both cases. An unregistered name raises \<open>KeyError\<close> at the first lookup;
  the handler logs the error and raises \<open>KeyError\<close> again at its own lookup.
\<close>

definition extract_source :: "world \<Rightarrow> string \<Rightarrow> etl \<Rightarrow> (py_exn + dataframe option) \<times> etl" where
  "extract_source w source_name s =
     (case map_of (data_sources s) source_name of
        None \<Rightarrow>
          (Inl (KeyError source_name),
           with_handler (log_error ''extract_source'' (UnexpectedErrorExtracting source_name)
                           (Details source_name)) s)
      | Some source_info \<Rightarrow>
          let file_path = filename source_info
          in case validate_file_exists (input_files w) file_path (error_handler s) of
               (exists, h) \<Rightarrow>
                 if \<not> exists
                 then (Inr None, set_status source_name ''file_not_found'' (s\<lparr>error_handler := h\<rparr>))
                 else (case input_files w file_path of
                         Frame df \<Rightarrow>
                           let s1 = set_status source_name ''extracted'' s
                           in (case validate_dataframe df source_name (error_handler s1) of
                                 (valid, h1) \<Rightarrow>
                                   if \<not> valid
                                   then (Inr None, set_status source_name ''validation_failed''
                                                     (s1\<lparr>error_handler := h1\<rparr>))
                                   else (Inr (Some df), s1\<lparr>error_handler := h1\<rparr>))
                       | ReadFails e \<Rightarrow>
                           (Inr None,
                            set_status source_name ''extraction_failed''
                              (with_handler (log_error (''extraction_'' @ source_name)
                                               (FailedToReadFile file_path) (Details e)) s))
                       | Missing \<Rightarrow>
                           (Inr None, set_status source_name ''file_not_found'' (s\<lparr>error_handler := h\<rparr>))))"

subsection \<open>Column mapping\<close>

definition map_columns :: "dataframe \<Rightarrow> string \<Rightarrow> etl \<Rightarrow> (py_exn + dataframe option) \<times> etl" where
  "map_columns df source_name s =
     (case map_of (data_sources s) source_name of
        None \<Rightarrow>
          (Inl (KeyError source_name),
           with_handler (log_error (''map_columns_'' @ source_name) ErrorDuringColumnMapping
                           (Details source_name)) s)
      | Some source_info \<Rightarrow>
          let m = mapping source_info;
              available_cols = filter (\<lambda>col. col \<in> set (columns df)) (map fst m);
              missing_cols = filter (\<lambda>col. col \<notin> set (columns df)) (map fst m);
              s1 = (if missing_cols \<noteq> []
                    then with_handler (log_warning (''mapping_'' @ source_name)
                                         (MissingColumnsInMapping missing_cols)) s
                    else s)
          in if available_cols \<noteq> []
             then let df_mapped = select_columns available_cols df;
                      df_mapped = rename_columns m df_mapped;
                      df_mapped = assign_scalar ''source'' (Str source_name) df_mapped
                  in (Inr (Some df_mapped), set_status source_name ''mapped'' s1)
             else (Inr None,
                   set_status source_name ''mapping_failed''
                     (with_handler (log_error (''mapping_'' @ source_name) NoColumnsCouldBeMapped
                                      (AvailableCols (columns df))) s1)))"

text \<open>
  The body of the loop of \<open>extract_and_map_all\<close> for one source, on the state of the
  pipeline, \<open>successful_sources\<close> and \<open>failed_sources\<close>; an exception raised for the
  source is logged and the source counted as failed.
\<close>

definition unexpected_error ::
  "string \<Rightarrow> py_exn \<Rightarrow> etl \<Rightarrow> nat \<Rightarrow> string list \<Rightarrow> etl \<times> nat \<times> string list" where
  "unexpected_error source_name e s successful_sources failed_sources =
     (with_handler (log_error (''extract_and_map_'' @ source_name)
                      (UnexpectedErrorProcessing source_name) (Details (str_exn e))) s,
      successful_sources, failed_sources @ [source_name])"

definition rectify_mapped :: "pandas \<Rightarrow> dataframe \<Rightarrow> string \<Rightarrow> etl \<Rightarrow> etl" where
  "rectify_mapped p df_mapped source_name s =
     (case rectify_data_types p df_mapped (error_handler s) of
        (df_typed, h1) \<Rightarrow>
          (case rectify_duplicates df_typed source_name h1 of
             (df_final, h2) \<Rightarrow> set_data source_name df_final (s\<lparr>error_handler := h2\<rparr>)))"

definition process_source ::
  "pandas \<Rightarrow> world \<Rightarrow> string \<Rightarrow> etl \<times> nat \<times> string list \<Rightarrow> etl \<times> nat \<times> string list" where
  "process_source p w source_name acc =
     (case acc of
        (s, successful_sources, failed_sources) \<Rightarrow>
          (case extract_source w source_name s of
             (Inl e, s1) \<Rightarrow> unexpected_error source_name e s1 successful_sources failed_sources
           | (Inr None, s1) \<Rightarrow> (s1, successful_sources, failed_sources @ [source_name])
           | (Inr (Some df), s1) \<Rightarrow>
               (case map_columns df source_name s1 of
                  (Inl e, s2) \<Rightarrow> unexpected_error source_name e s2 successful_sources failed_sources
                | (Inr None, s2) \<Rightarrow> (s2, successful_sources, failed_sources @ [source_name])
                | (Inr (Some df_mapped), s2) \<Rightarrow>
                    (rectify_mapped p df_mapped source_name s2,
                     successful_sources + 1, failed_sources))))"

definition extract_and_map_loop ::
  "pandas \<Rightarrow> world \<Rightarrow> string list \<Rightarrow> etl \<times> nat \<times> string list \<Rightarrow> etl \<times> nat \<times> string list" where
  "extract_and_map_loop p w names acc = fold (process_source p w) names acc"

definition extract_and_map_all :: "pandas \<Rightarrow> world \<Rightarrow> etl \<Rightarrow> bool \<times> etl" where
  "extract_and_map_all p w s =
     (case extract_and_map_loop p w (map fst (data_sources s)) (s, 0, []) of
        (s', successful_sources, failed_sources) \<Rightarrow> (successful_sources > 0, s'))"

subsection \<open>Consolidation\<close>

text \<open>
  \<open>dataframes\<close> is the list that \<open>consolidate\<close> collects from the registry, in the
  order of registration. \<open>pd.concat\<close> does not raise on tables with unique labels, so
  the \<open>except\<close> branch of \<open>consolidate\<close> has no counterpart.
\<close>

definition dataframes :: "etl \<Rightarrow> dataframe list" where
  "dataframes s =
     concat (map (\<lambda>(source_name, source_info).
                    case data source_info of None \<Rightarrow> [] | Some df \<Rightarrow> [df])
                 (data_sources s))"

definition consolidate :: "etl \<Rightarrow> bool \<times> etl" where
  "consolidate s =
     (if dataframes s = []
      then (False, with_handler (log_error ''consolidation'' NoDataSourcesToConsolidate
                                   (Details ''All sources failed to process'')) s)
      else (True, s\<lparr>consolidated_data := Some (pd_concat (dataframes s))\<rparr>))"

subsection \<open>Transformation\<close>

definition py_str :: "pandas \<Rightarrow> cell \<Rightarrow> string" where
  "py_str p v =
     (case v of Null \<Rightarrow> ''None'' | Str x \<Rightarrow> x | Num n \<Rightarrow> str_int n | Date t \<Rightarrow> str_timestamp p t)"

definition normalize_gender :: "pandas \<Rightarrow> cell \<Rightarrow> string" where
  "normalize_gender p gender_value =
     (if gender_value = Null then ''Unknown''
      else let gender_str = lower (strip (py_str p gender_value))
           in if gender_str \<in> set [''m'', ''mm'', ''male'', ''1''] then ''M''
              else if gender_str \<in> set [''f'', ''ff'', ''female'', ''2''] then ''F''
              else if gender_str \<in> set [''0'', ''unknown''] then ''Unknown''
              else ''Unknown'')"

definition format_date :: "pandas \<Rightarrow> cell \<Rightarrow> cell" where
  "format_date p date_value =
     (if date_value = Null then Null
      else case to_datetime p date_value of
             None \<Rightarrow> Null
           | Some parsed_date \<Rightarrow> Str (strftime_ymd p parsed_date))"

definition format_date_columns :: "pandas \<Rightarrow> string list \<Rightarrow> dataframe \<Rightarrow> dataframe" where
  "format_date_columns p cols df =
     fold (\<lambda>col d. if col \<in> set (columns d) then apply_column (format_date p) col d else d) cols df"

text \<open>
  What \<open>transform\<close> reads from the configuration: \<open>config.get(key, default)\<close> under
  the guard \<open>if config\<close>, or \<open>config and config.get(key, default)\<close>.
\<close>

definition cfg_date_columns :: "config option \<Rightarrow> string list" where
  "cfg_date_columns config =
     (if config_truthy config
      then (case date_columns (the config) of None \<Rightarrow> [] | Some cs \<Rightarrow> cs)
      else [])"

definition cfg_fill_rules :: "config option \<Rightarrow> (string \<times> cell) list" where
  "cfg_fill_rules config =
     (if config_truthy config
      then (case fill_missing_values (the config) of None \<Rightarrow> [] | Some rs \<Rightarrow> rs)
      else [])"

definition cfg_remove_duplicates :: "config option \<Rightarrow> bool" where
  "cfg_remove_duplicates config =
     (config_truthy config \<and>
      (case remove_duplicates (the config) of None \<Rightarrow> True | Some b \<Rightarrow> b))"

definition cfg_final_columns :: "config option \<Rightarrow> string list" where
  "cfg_final_columns config =
     (if config_truthy config
      then (case final_columns (the config) of None \<Rightarrow> [] | Some fc \<Rightarrow> fc)
      else [])"

definition normalize_gender_column :: "pandas \<Rightarrow> dataframe \<Rightarrow> dataframe" where
  "normalize_gender_column p df =
     (if ''gender'' \<in> set (columns df)
      then apply_column (\<lambda>v. Str (normalize_gender p v)) ''gender'' df
      else df)"

definition fill_step ::
  "(string \<times> cell) list \<Rightarrow> dataframe \<Rightarrow> error_handler \<Rightarrow> (py_exn + dataframe) \<times> error_handler" where
  "fill_step fill_rules df h =
     (if fill_rules \<noteq> [] then rectify_missing_values df (Some fill_rules) h else (Inr df, h))"

definition duplicates_step ::
  "config option \<Rightarrow> dataframe \<Rightarrow> error_handler \<Rightarrow> dataframe \<times> error_handler" where
  "duplicates_step config df h =
     (if cfg_remove_duplicates config then rectify_duplicates df ''transform'' h else (df, h))"

definition final_columns_step ::
  "string list \<Rightarrow> dataframe \<Rightarrow> error_handler \<Rightarrow> dataframe \<times> error_handler" where
  "final_columns_step final_cols df h =
     (if final_cols \<noteq> []
      then let available_cols = filter (\<lambda>col. col \<in> set (columns df)) final_cols;
               missing_cols = filter (\<lambda>col. col \<notin> set (columns df)) final_cols
           in (select_columns available_cols df,
               if missing_cols \<noteq> []
               then log_warning ''transform'' (RequestedColumnsNotInData missing_cols) h
               else h)
      else (df, h))"

text \<open>
  The steps of \<open>transform\<close> on the copy of the consolidated table, in the order of the
  source; an exception (only filling can raise) ends them.
\<close>

definition transform_steps ::
  "pandas \<Rightarrow> config option \<Rightarrow> dataframe \<Rightarrow> error_handler \<Rightarrow> (py_exn + dataframe) \<times> error_handler" where
  "transform_steps p config consolidated h =
     (case fill_step (cfg_fill_rules config)
             (format_date_columns p (cfg_date_columns config)
                (normalize_gender_column p consolidated)) h of
        (Inl e, h1) \<Rightarrow> (Inl e, h1)
      | (Inr filled, h1) \<Rightarrow>
          (case duplicates_step config filled h1 of
             (deduplicated, h2) \<Rightarrow>
               (case final_columns_step (cfg_final_columns config) deduplicated h2 of
                  (transformed, h3) \<Rightarrow> (Inr transformed, h3))))"

definition transform :: "pandas \<Rightarrow> config option \<Rightarrow> etl \<Rightarrow> bool \<times> etl" where
  "transform p config s =
     (case consolidated_data s of
        None \<Rightarrow>
          (False, with_handler (log_error ''transform'' NoConsolidatedDataToTransform
                                  (Details ''Run consolidate() first'')) s)
      | Some consolidated \<Rightarrow>
          (case transform_steps p config consolidated (error_handler s) of
             (Inl e, h) \<Rightarrow>
               (False, s\<lparr>error_handler := log_error ''transform'' TransformationFailed
                                             (Details (str_exn e)) h\<rparr>)
           | (Inr transformed, h) \<Rightarrow>
               (True, s\<lparr>error_handler := h, transformed_data := Some transformed\<rparr>)))"

subsection \<open>Loading\<close>

definition load :: "world \<Rightarrow> string \<Rightarrow> etl \<Rightarrow> disk \<Rightarrow> bool \<times> etl \<times> disk" where
  "load w output_filename s d =
     (case transformed_data s of
        None \<Rightarrow>
          (False, with_handler (log_error ''load'' NoTransformedDataToLoad
                                  (Details ''Run transform() first'')) s, d)
      | Some transformed \<Rightarrow>
          (case to_csv_raises w output_filename of
             Some e \<Rightarrow> (False, with_handler (log_error ''load'' FailedToSaveData (Details e)) s, d)
           | None \<Rightarrow> (True, s, d\<lparr>csv_files := csv_files d @ [(output_filename, transformed)]\<rparr>)))"

subsection \<open>The run\<close>

text \<open>
  \<open>print_error_summary\<close> only writes to the log, and raises or not. Its loop over the
  warnings enumerates \<open>report['total_warnings']\<close>, an integer, which raises
  \<open>TypeError\<close> as soon as the ledger holds a warning.
\<close>

definition print_error_summary :: "error_handler \<Rightarrow> py_exn option" where
  "print_error_summary h =
     (let report = get_error_report h
      in if total_warnings report > 0
         then Some (TypeError ''int object is not iterable'')
         else None)"

text \<open>
  The four phases of the \<open>try\<close> block. No phase raises, so the \<open>except\<close> branch of
  \<open>run\<close> that sets \<open>failed_unexpected\<close> has no counterpart.
\<close>

definition run_phases ::
  "pandas \<Rightarrow> world \<Rightarrow> string \<Rightarrow> config option \<Rightarrow> etl \<Rightarrow> disk \<Rightarrow> bool \<times> etl \<times> disk" where
  "run_phases p w output_filename config s d =
     (case extract_and_map_all p w s of
        (ok1, s1) \<Rightarrow>
          if \<not> ok1
          then (False,
                (with_handler (log_error ''pipeline'' ExtractAndMapPhaseFailed
                                 (Details ''No sources processed successfully'')) s1)
                  \<lparr>pipeline_status := ''failed_extract''\<rparr>, d)
          else (case consolidate s1 of
                  (ok2, s2) \<Rightarrow>
                    if \<not> ok2
                    then (False,
                          (with_handler (log_error ''pipeline'' ConsolidationPhaseFailed
                                           (Details ''Could not merge sources'')) s2)
                            \<lparr>pipeline_status := ''failed_consolidate''\<rparr>, d)
                    else (case transform p config s2 of
                            (ok3, s3) \<Rightarrow>
                              if \<not> ok3
                              then (False,
                                    (with_handler (log_error ''pipeline'' TransformationPhaseFailed
                                                     (Details ''Could not transform data'')) s3)
                                      \<lparr>pipeline_status := ''failed_transform''\<rparr>, d)
                              else (case load w output_filename s3 d of
                                      (ok4, s4, d4) \<Rightarrow>
                                        if \<not> ok4
                                        then (False,
                                              (with_handler (log_error ''pipeline'' LoadPhaseFailed
                                                               (Details ''Could not save output'')) s4)
                                                \<lparr>pipeline_status := ''failed_load''\<rparr>, d4)
                                        else (True, s4\<lparr>pipeline_status := ''completed_successfully''\<rparr>, d4)))))"

text \<open>
  \<open>run\<close>: the phases, then the \<open>finally\<close> block, which saves the error log and prints
  the summary. An exception raised in the \<open>finally\<close> block replaces the returned
  status.
\<close>

definition run ::
  "pandas \<Rightarrow> world \<Rightarrow> string \<Rightarrow> config option \<Rightarrow> etl \<Rightarrow> disk \<Rightarrow> (py_exn + bool) \<times> etl \<times> disk" where
  "run p w output_filename config s d =
     (case run_phases p w output_filename config s d of
        (result, s', d') \<Rightarrow>
          (case save_error_log w (error_handler s') d' of
             Inl e \<Rightarrow> (Inl e, s', d')
           | Inr d'' \<Rightarrow>
               (case print_error_summary (error_handler s') of
                  Some e \<Rightarrow> (Inl e, s', d'')
                | None \<Rightarrow> (Inr result, s', d''))))"

section \<open>Notions for the statements\<close>

text \<open>
  The corrections that filling logs for a table and its rules, in the order of the rules;
  and the column a correction of this kind is about.
\<close>

definition fill_corrections :: "dataframe \<Rightarrow> (string \<times> cell) list \<Rightarrow> correction_record list" where
  "fill_corrections df rules =
     concat (map (\<lambda>(c, v). if c \<in> set (columns df) \<and> isna_sum (get_column df c) > 0
                            then [\<lparr>corr_stage = ''missing_values'',
                                   corr_action = FilledMissingValues (isna_sum (get_column df c)) c v,
                                   affected_rows = isna_sum (get_column df c)\<rparr>]
                            else []) rules)"

fun action_column :: "action \<Rightarrow> string option" where
  "action_column (FilledMissingValues k c v) = Some c"
| "action_column (RectifiedDataTypes n) = None"
| "action_column RemovedDuplicateRows = None"



text \<open>
  How a source fares in extraction and mapping is fixed by its file and its mapping: it
  fails when the file is missing, cannot be read, reads as a table without columns or
  rows, or has no column that the mapping names. \<open>source_errors\<close> are the errors that a
  failing source logs; a table without columns or rows gives a warning and no error.
  \<open>same_registry\<close> compares two states on everything of the registry but the statuses.
\<close>

definition fails_validation :: "world \<Rightarrow> source_info \<Rightarrow> bool" where
  "fails_validation w i =
     (case input_files w (filename i) of
        Frame df \<Rightarrow> columns df = [] \<or> rows df = []
      | _ \<Rightarrow> False)"

definition source_fails :: "world \<Rightarrow> source_info \<Rightarrow> bool" where
  "source_fails w i =
     (case input_files w (filename i) of
        Missing \<Rightarrow> True
      | ReadFails e \<Rightarrow> True
      | Frame df \<Rightarrow>
          columns df = [] \<or> rows df = [] \<or>
          list_all (\<lambda>col. col \<notin> set (columns df)) (map fst (mapping i)))"

definition source_errors :: "world \<Rightarrow> string \<times> source_info \<Rightarrow> error_record list" where
  "source_errors w ni =
     (case ni of
        (n, i) \<Rightarrow>
          (case input_files w (filename i) of
             Missing \<Rightarrow>
               [\<lparr>err_stage = ''validation'', err_msg = FileNotFound (filename i),
                 err_details = Details ''This file is required for processing''\<rparr>]
           | ReadFails e \<Rightarrow>
               [\<lparr>err_stage = ''extraction_'' @ n, err_msg = FailedToReadFile (filename i),
                 err_details = Details e\<rparr>]
           | Frame df \<Rightarrow>
               if columns df = [] \<or> rows df = [] then []
               else [\<lparr>err_stage = ''mapping_'' @ n, err_msg = NoColumnsCouldBeMapped,
                      err_details = AvailableCols (columns df)\<rparr>]))"

definition registry_core :: "etl \<Rightarrow> (string \<times> string \<times> (string \<times> string) list \<times> dataframe option) list" where
  "registry_core s = map (\<lambda>(n, i). (n, filename i, mapping i, data i)) (data_sources s)"

definition same_registry :: "etl \<Rightarrow> etl \<Rightarrow> bool" where
  "same_registry s s' = (registry_core s' = registry_core s)"

section \<open>Example inputs\<close>

text \<open>A pandas that parses no date and reads numbers only from numeric cells.\<close>

definition pd0 :: pandas where
  "pd0 = \<lparr>to_datetime = (\<lambda>_. None),
          to_numeric = (\<lambda>v. case v of Num n \<Rightarrow> Some n | _ \<Rightarrow> None),
          strftime_ymd = (\<lambda>_. ''1970-01-01''),
          str_timestamp = (\<lambda>_. ''1970-01-01 00:00:00'')\<rparr>"

text \<open>One registered source whose mapping names a column \<open>emp\<close>, and a table without it.\<close>

definition example_etl :: etl where
  "example_etl = register_source ''hr'' ''hr.csv'' [(''emp'', ''employee_id'')] init_etl"

definition example_ids :: dataframe where
  "example_ids = \<lparr>columns = [''id''], rows = [[Num 7]]\<rparr>"



text \<open>A table with nulls, and fill rules for one of its columns and for an absent one.\<close>

definition example_staff :: dataframe where
  "example_staff =
     \<lparr>columns = [''name'', ''dept''],
      rows = [[Str ''ann'', Null], [Null, Str ''ops''], [Str ''bob'', Null]]\<rparr>"

definition example_rules :: "(string \<times> cell) list" where
  "example_rules = [(''dept'', Str ''Unassigned''), (''gender'', Str ''Unknown'')]"



text \<open>A registry after extraction: two sources with mapped tables, and one that failed.\<close>

definition example_two_sources :: etl where
  "example_two_sources =
     init_etl\<lparr>data_sources :=
       [(''hr'', \<lparr>filename = ''hr.csv'', mapping = [(''id'', ''employee_id'')],
                 data = Some \<lparr>columns = [''employee_id'', ''source''],
                              rows = [[Num 1, Str ''hr''], [Num 2, Str ''hr'']]\<rparr>,
                 status = ''mapped''\<rparr>),
        (''lost'', \<lparr>filename = ''lost.csv'', mapping = [(''id'', ''employee_id'')],
                   data = None, status = ''file_not_found''\<rparr>),
        (''crm'', \<lparr>filename = ''crm.csv'', mapping = [(''mail'', ''email'')],
                  data = Some \<lparr>columns = [''email'', ''source''],
                               rows = [[Str ''a@x'', Str ''crm'']]\<rparr>,
                  status = ''mapped''\<rparr>)]\<rparr>"



text \<open>Two registered sources; a world without files, and one whose files hold only a header.\<close>

definition empty_disk :: disk where
  "empty_disk = \<lparr>csv_files = [], error_logs = []\<rparr>"

definition world_no_files :: world where
  "world_no_files =
     \<lparr>input_files = (\<lambda>_. Missing), to_csv_raises = (\<lambda>_. None), error_log_raises = None\<rparr>"

definition world_header_only :: world where
  "world_header_only =
     \<lparr>input_files = (\<lambda>_. Frame \<lparr>columns = [''id''], rows = []\<rparr>),
      to_csv_raises = (\<lambda>_. None), error_log_raises = None\<rparr>"

definition example_two_registered :: etl where
  "example_two_registered =
     register_source ''b'' ''b.csv'' [(''id'', ''employee_id'')]
       (register_source ''a'' ''a.csv'' [(''id'', ''employee_id'')] init_etl)"

text \<open>
  One source whose file is read and whose mapping names a column that the file does not
  have, and the states of its run.
\<close>

definition world_hr :: world where
  "world_hr =
     \<lparr>input_files = (\<lambda>f. if f = ''hr.csv'' then Frame \<lparr>columns = [''id''], rows = [[Num 7]]\<rparr>
                           else Missing),
      to_csv_raises = (\<lambda>_. None), error_log_raises = None\<rparr>"

definition example_hr_etl :: etl where
  "example_hr_etl =
     register_source ''hr'' ''hr.csv'' [(''id'', ''employee_id''), (''name'', ''first_name'')] init_etl"

definition example_hr_table :: dataframe where
  "example_hr_table = \<lparr>columns = [''employee_id'', ''source''], rows = [[Num 7, Str ''hr'']]\<rparr>"

definition example_hr_mapped :: etl where
  "example_hr_mapped =
     \<lparr>error_handler =
         \<lparr>errors = [],
          warnings = [\<lparr>warn_stage = ''mapping_hr'', warn_msg = MissingColumnsInMapping [''name'']\<rparr>],
          corrections = []\<rparr>,
       data_sources =
         [(''hr'', \<lparr>filename = ''hr.csv'',
                   mapping = [(''id'', ''employee_id''), (''name'', ''first_name'')],
                   data = Some example_hr_table, status = ''mapped''\<rparr>)],
       consolidated_data = None, transformed_data = None, pipeline_status = ''initialized''\<rparr>"

definition example_hr_final :: etl where
  "example_hr_final =
     example_hr_mapped\<lparr>consolidated_data := Some example_hr_table,
                       transformed_data := Some example_hr_table,
                       pipeline_status := ''completed_successfully''\<rparr>"

section \<open>Properties\<close>

subsection \<open>Duplicate removal\<close>

lemma set_drop_duplicates: "set (drop_duplicates rs) = set rs"
  by (induction rs rule: drop_duplicates.induct) auto

lemma distinct_drop_duplicates: "distinct (drop_duplicates rs)"
  by (induction rs rule: drop_duplicates.induct) (auto simp: set_drop_duplicates)

lemma drop_duplicates_distinct: "distinct rs \<Longrightarrow> drop_duplicates rs = rs"
proof (induction rs)
  case Nil
  show ?case by simp
next
  case (Cons r rs)
  then have "filter (\<lambda>x. x \<noteq> r) rs = rs"
    by (auto intro: filter_True)
  with Cons show ?case by simp
qed

lemma drop_duplicates_idem: "drop_duplicates (drop_duplicates rs) = drop_duplicates rs"
  by (rule drop_duplicates_distinct) (rule distinct_drop_duplicates)

lemma length_drop_duplicates: "length (drop_duplicates rs) \<le> length rs"
proof (induction rs rule: drop_duplicates.induct)
  case 1
  show ?case by simp
next
  case (2 r rs)
  have "length (filter (\<lambda>x. x \<noteq> r) rs) \<le> length rs" by simp
  with 2 have "length (drop_duplicates (filter (\<lambda>x. x \<noteq> r) rs)) \<le> length rs"
    by (rule le_trans)
  then show ?case by simp
qed

text \<open>
  C9. Duplicate removal is idempotent: a second pass returns the table of the first
  pass, so the same number of rows, and logs nothing; a pass logs one correction, with
  the number of removed rows, exactly when it removed a row.
\<close>

theorem rectify_duplicates_idempotent:
  "rectify_duplicates (fst (rectify_duplicates df n h)) n' (snd (rectify_duplicates df n h))
     = rectify_duplicates df n h
   \<and> nrows (fst (rectify_duplicates df n h)) \<le> nrows df
   \<and> corrections (snd (rectify_duplicates df n h)) =
       corrections h @
         (if nrows (fst (rectify_duplicates df n h)) < nrows df
          then [\<lparr>corr_stage = n, corr_action = RemovedDuplicateRows,
                 affected_rows = int (nrows df) - int (nrows (fst (rectify_duplicates df n h)))\<rparr>]
          else [])
   \<and> errors (snd (rectify_duplicates df n h)) = errors h
   \<and> warnings (snd (rectify_duplicates df n h)) = warnings h"
  using length_drop_duplicates [of "rows df"]
  by (auto simp: rectify_duplicates_def Let_def nrows_def log_correction_def drop_duplicates_idem)

theorem rectify_duplicates_idempotent_witness:
  "rectify_duplicates
     (fst (rectify_duplicates \<lparr>columns = [''a''], rows = [[Num 1], [Num 1], [Num 2]]\<rparr> ''s'' new_error_handler))
     ''s''
     (snd (rectify_duplicates \<lparr>columns = [''a''], rows = [[Num 1], [Num 1], [Num 2]]\<rparr> ''s'' new_error_handler))
   = (\<lparr>columns = [''a''], rows = [[Num 1], [Num 2]]\<rparr>,
      \<lparr>errors = [], warnings = [],
       corrections = [\<lparr>corr_stage = ''s'', corr_action = RemovedDuplicateRows, affected_rows = 1\<rparr>]\<rparr>)"
  using rectify_duplicates_idempotent
          [of "\<lparr>columns = [''a''], rows = [[Num 1], [Num 1], [Num 2]]\<rparr>" "''s''" new_error_handler "''s''"]
  by (simp add: rectify_duplicates_def Let_def nrows_def log_correction_def new_error_handler_def)

subsection \<open>Gender normalization\<close>









subsection \<open>State and ledger helpers\<close>

lemma map_of_map_entry:
  "map_of (map (\<lambda>(k, i). if k = n then (k, f i) else (k, i)) xs) m =
     (if m = n then map_option f (map_of xs n) else map_of xs m)"
  by (induction xs) auto

lemma map_of_set_status:
  "map_of (data_sources (set_status n st s)) m =
     (if m = n then map_option (\<lambda>i. i\<lparr>status := st\<rparr>) (map_of (data_sources s) n)
      else map_of (data_sources s) m)"
  by (simp add: set_status_def map_of_map_entry)

lemma set_status_fields [simp]:
  "error_handler (set_status n st s) = error_handler s"
  "consolidated_data (set_status n st s) = consolidated_data s"
  "transformed_data (set_status n st s) = transformed_data s"
  "pipeline_status (set_status n st s) = pipeline_status s"
  "map fst (data_sources (set_status n st s)) = map fst (data_sources s)"
  by (auto simp: set_status_def split: prod.splits)

lemma with_handler_fields [simp]:
  "error_handler (with_handler f s) = f (error_handler s)"
  "data_sources (with_handler f s) = data_sources s"
  "consolidated_data (with_handler f s) = consolidated_data s"
  "transformed_data (with_handler f s) = transformed_data s"
  "pipeline_status (with_handler f s) = pipeline_status s"
  by (simp_all add: with_handler_def)

lemma log_fields [simp]:
  "errors (log_error st m d h) = errors h @ [\<lparr>err_stage = st, err_msg = m, err_details = d\<rparr>]"
  "warnings (log_error st m d h) = warnings h"
  "corrections (log_error st m d h) = corrections h"
  "errors (log_warning st wm h) = errors h"
  "warnings (log_warning st wm h) = warnings h @ [\<lparr>warn_stage = st, warn_msg = wm\<rparr>]"
  "corrections (log_warning st wm h) = corrections h"
  "errors (log_correction st a k h) = errors h"
  "warnings (log_correction st a k h) = warnings h"
  "corrections (log_correction st a k h) = corrections h @ [\<lparr>corr_stage = st, corr_action = a, affected_rows = k\<rparr>]"
  by (simp_all add: log_error_def log_warning_def log_correction_def)

subsection \<open>Column mapping\<close>

text \<open>
  C4. When no key of the mapping of a registered source is a column of its table,
  \<open>map_columns\<close> returns none, appends exactly one error to the ledger and sets the
  status of the source to \<open>mapping_failed\<close>; the missing keys give one warning (none
  for an empty mapping), which is not an error.
\<close>

theorem map_columns_no_match:
  assumes "map_of (data_sources s) source_name = Some info"
      and "\<forall>col \<in> set (map fst (mapping info)). col \<notin> set (columns df)"
  shows "fst (map_columns df source_name s) = Inr None
     \<and> errors (error_handler (snd (map_columns df source_name s))) =
         errors (error_handler s) @
           [\<lparr>err_stage = ''mapping_'' @ source_name, err_msg = NoColumnsCouldBeMapped,
             err_details = AvailableCols (columns df)\<rparr>]
     \<and> map_of (data_sources (snd (map_columns df source_name s))) source_name =
         Some (info\<lparr>status := ''mapping_failed''\<rparr>)
     \<and> warnings (error_handler (snd (map_columns df source_name s))) =
         warnings (error_handler s) @
           (if mapping info = [] then []
            else [\<lparr>warn_stage = ''mapping_'' @ source_name,
                   warn_msg = MissingColumnsInMapping (map fst (mapping info))\<rparr>])
     \<and> corrections (error_handler (snd (map_columns df source_name s))) =
         corrections (error_handler s)"
proof -
  from assms(2) have av: "filter (\<lambda>col. col \<in> set (columns df)) (map fst (mapping info)) = []"
    by (auto simp: filter_empty_conv)
  from assms(2) have mi: "filter (\<lambda>col. col \<notin> set (columns df)) (map fst (mapping info)) = map fst (mapping info)"
    by (auto intro: filter_True)
  show ?thesis
    using assms(1) by (simp add: map_columns_def Let_def av mi map_of_set_status)
qed

theorem map_columns_no_match_witness:
  "fst (map_columns example_ids ''hr'' example_etl) = Inr None
   \<and> errors (error_handler (snd (map_columns example_ids ''hr'' example_etl))) =
       [\<lparr>err_stage = ''mapping_hr'', err_msg = NoColumnsCouldBeMapped,
         err_details = AvailableCols [''id'']\<rparr>]
   \<and> map_option status (map_of (data_sources (snd (map_columns example_ids ''hr'' example_etl))) ''hr'')
       = Some ''mapping_failed''"
  using map_columns_no_match
          [of example_etl "''hr''"
              "\<lparr>filename = ''hr.csv'', mapping = [(''emp'', ''employee_id'')], data = None,
                status = ''registered''\<rparr>"
              example_ids]
  by (simp add: example_etl_def example_ids_def register_source_def init_etl_def
        new_error_handler_def)







subsection \<open>Missing values\<close>

lemma map_of_zip_map2:
  "map_of (zip xs (map2 g xs ys)) k = map_option (g k) (map_of (zip xs ys) k)"
proof (induction xs arbitrary: ys)
  case Nil
  show ?case by simp
next
  case (Cons x xs)
  show ?case by (cases ys) (simp_all add: Cons.IH)
qed

lemma cell_at_map2:
  "cell_at cols (map2 g cols r) c =
     (case map_of (zip cols r) c of None \<Rightarrow> Null | Some x \<Rightarrow> g c x)"
  by (simp add: cell_at_def map_of_zip_map2 split: option.splits)

lemma map_of_zip_found:
  "c \<in> set cols \<Longrightarrow> length r = length cols \<Longrightarrow> \<exists>x. map_of (zip cols r) c = Some x"
  using map_of_zip_is_Some [of cols r c] by auto

lemma apply_column_columns [simp]: "columns (apply_column f c df) = columns df"
  by (simp add: apply_column_def)

lemma apply_column_nrows [simp]: "nrows (apply_column f c df) = nrows df"
  by (simp add: apply_column_def nrows_def)

lemma wf_apply_column: "wf_df df \<Longrightarrow> wf_df (apply_column f c df)"
  by (auto simp: wf_df_def apply_column_def list_all_iff)

lemma cell_at_map2_other:
  "c' \<noteq> c \<Longrightarrow>
   cell_at cols (map2 (\<lambda>n x. if n = c then f x else x) cols r) c' = cell_at cols r c'"
  unfolding cell_at_map2 by (simp add: cell_at_def split: option.splits)

lemma get_column_apply_other:
  "c' \<noteq> c \<Longrightarrow> get_column (apply_column f c df) c' = get_column df c'"
  by (simp add: get_column_def apply_column_def cell_at_map2_other)

lemma cell_at_map2_same:
  assumes "c \<in> set cols" "length r = length cols"
  shows "cell_at cols (map2 (\<lambda>n x. if n = c then f x else x) cols r) c = f (cell_at cols r c)"
proof -
  from assms obtain x where x: "map_of (zip cols r) c = Some x"
    using map_of_zip_is_Some [of cols r c] by auto
  show ?thesis
    unfolding cell_at_map2 by (simp add: x cell_at_def)
qed

lemma get_column_apply_same:
  assumes "wf_df df" "c \<in> set (columns df)"
  shows "get_column (apply_column f c df) c = map f (get_column df c)"
proof -
  from assms(1) have len: "\<forall>r \<in> set (rows df). length r = length (columns df)"
    by (simp add: wf_df_def list_all_iff)
  have "map (\<lambda>r. cell_at (columns df) (map2 (\<lambda>n x. if n = c then f x else x) (columns df) r) c) (rows df)
        = map (\<lambda>r. f (cell_at (columns df) r c)) (rows df)"
  proof (rule map_cong [OF refl])
    fix r assume "r \<in> set (rows df)"
    with len have "length r = length (columns df)" by blast
    with assms(2) show "cell_at (columns df) (map2 (\<lambda>n x. if n = c then f x else x) (columns df) r) c
        = f (cell_at (columns df) r c)"
      by (rule cell_at_map2_same)
  qed
  then show ?thesis
    by (simp add: get_column_def apply_column_def o_def)
qed

lemma fillna_no_nulls:
  assumes "isna_sum xs = 0"
  shows "map (fillna v) xs = xs"
proof -
  from assms have "filter (\<lambda>x. x = Null) xs = []"
    by (simp add: isna_sum_def)
  then have "\<forall>x \<in> set xs. x \<noteq> Null"
    by (simp add: filter_empty_conv)
  then show ?thesis
    by (intro map_idI) (simp add: fillna_def)
qed

lemma isna_sum_nonneg: "0 \<le> isna_sum xs"
  by (simp add: isna_sum_def)

lemma fill_corrections_cong:
  assumes "columns df1 = columns df" "\<forall>c \<in> fst ` set rules. get_column df1 c = get_column df c"
  shows "fill_corrections df1 rules = fill_corrections df rules"
proof -
  have "(case x of (c, v) \<Rightarrow>
           if c \<in> set (columns df1) \<and> isna_sum (get_column df1 c) > 0
           then [\<lparr>corr_stage = ''missing_values'',
                  corr_action = FilledMissingValues (isna_sum (get_column df1 c)) c v,
                  affected_rows = isna_sum (get_column df1 c)\<rparr>]
           else []) =
        (case x of (c, v) \<Rightarrow>
           if c \<in> set (columns df) \<and> isna_sum (get_column df c) > 0
           then [\<lparr>corr_stage = ''missing_values'',
                  corr_action = FilledMissingValues (isna_sum (get_column df c)) c v,
                  affected_rows = isna_sum (get_column df c)\<rparr>]
           else [])" if "x \<in> set rules" for x
  proof -
    obtain c v where x: "x = (c, v)" by (cases x)
    with that have "c \<in> fst ` set rules" by force
    with assms(2) have "get_column df1 c = get_column df c" by blast
    with assms(1) show ?thesis by (simp add: x)
  qed
  then show ?thesis
    unfolding fill_corrections_def by (simp cong: map_cong)
qed


lemma rectify_missing_values_loop_spec:
  assumes "wf_df df" "distinct (map fst rules)" "\<forall>(c, v) \<in> set rules. v \<noteq> Null"
  shows "\<exists>df'. rectify_missing_values_loop rules df h =
            (Inr df', h\<lparr>corrections := corrections h @ fill_corrections df rules\<rparr>)
          \<and> columns df' = columns df \<and> nrows df' = nrows df \<and> wf_df df'
          \<and> (\<forall>c \<in> set (columns df). get_column df' c =
                (case map_of rules c of None \<Rightarrow> get_column df c
                 | Some v \<Rightarrow> map (fillna v) (get_column df c)))"
  using assms
proof (induction rules arbitrary: df h)
  case Nil
  then show ?case by (simp add: fill_corrections_def)
next
  case (Cons rule rules)
  obtain c v where rule: "rule = (c, v)" by (cases rule)
  from Cons.prems rule have d: "distinct (map fst rules)" and cn: "c \<notin> fst ` set rules"
    and vs: "\<forall>(c, v) \<in> set rules. v \<noteq> Null" and v: "v \<noteq> Null"
    by auto
  from cn have mc: "map_of rules c = None" by (simp add: map_of_eq_None_iff)
  show ?case
  proof (cases "c \<in> set (columns df) \<and> isna_sum (get_column df c) > 0")
    case True
    define df1 where "df1 = apply_column (fillna v) c df"
    define h1 where "h1 = log_correction ''missing_values''
        (FilledMissingValues (isna_sum (get_column df c)) c v) (isna_sum (get_column df c)) h"
    have wf1: "wf_df df1" unfolding df1_def using Cons.prems(1) by (rule wf_apply_column)
    from Cons.IH [OF wf1 d vs, of h1] obtain df' where
      r: "rectify_missing_values_loop rules df1 h1 =
            (Inr df', h1\<lparr>corrections := corrections h1 @ fill_corrections df1 rules\<rparr>)"
      and c': "columns df' = columns df1" and n': "nrows df' = nrows df1" and wf': "wf_df df'"
      and g: "\<forall>c \<in> set (columns df1). get_column df' c =
                (case map_of rules c of None \<Rightarrow> get_column df1 c
                 | Some v \<Rightarrow> map (fillna v) (get_column df1 c))"
      by blast
    have other: "get_column df1 c' = get_column df c'" if "c' \<noteq> c" for c'
      unfolding df1_def using that by (rule get_column_apply_other)
    have same: "get_column df1 c = map (fillna v) (get_column df c)"
      unfolding df1_def using Cons.prems(1) True by (intro get_column_apply_same) auto
    have "get_column df1 a = get_column df a" if "a \<in> fst ` set rules" for a
    proof -
      from that cn have "a \<noteq> c" by blast
      then show ?thesis by (rule other)
    qed
    then have fc: "fill_corrections df1 rules = fill_corrections df rules"
      by (intro fill_corrections_cong) (simp_all add: df1_def)
    have run: "rectify_missing_values_loop (rule # rules) df h =
                 rectify_missing_values_loop rules df1 h1"
      using True v by (simp add: rule df1_def h1_def Let_def)
    have hd: "fill_corrections df (rule # rules) =
                \<lparr>corr_stage = ''missing_values'',
                 corr_action = FilledMissingValues (isna_sum (get_column df c)) c v,
                 affected_rows = isna_sum (get_column df c)\<rparr> # fill_corrections df rules"
      using True by (simp add: rule fill_corrections_def)
    have led: "h1\<lparr>corrections := corrections h1 @ fill_corrections df1 rules\<rparr> =
               h\<lparr>corrections := corrections h @ fill_corrections df (rule # rules)\<rparr>"
      unfolding fc hd by (simp add: h1_def log_correction_def)
    have cols: "\<forall>c'' \<in> set (columns df). get_column df' c'' =
                (case map_of (rule # rules) c'' of None \<Rightarrow> get_column df c''
                 | Some v \<Rightarrow> map (fillna v) (get_column df c''))"
    proof
      fix c'' assume "c'' \<in> set (columns df)"
      then have in1: "c'' \<in> set (columns df1)" by (simp add: df1_def)
      show "get_column df' c'' =
                (case map_of (rule # rules) c'' of None \<Rightarrow> get_column df c''
                 | Some v \<Rightarrow> map (fillna v) (get_column df c''))"
      proof (cases "c'' = c")
        case True
        with g in1 mc same show ?thesis by (simp add: rule)
      next
        case False
        with g in1 other [of c''] show ?thesis by (simp add: rule split: option.splits)
      qed
    qed
    from r run led have res: "rectify_missing_values_loop (rule # rules) df h =
        (Inr df', h\<lparr>corrections := corrections h @ fill_corrections df (rule # rules)\<rparr>)"
      by (simp only:)
    from c' have c0: "columns df' = columns df" by (simp add: df1_def)
    from n' have n0: "nrows df' = nrows df" by (simp add: df1_def)
    from res c0 n0 wf' cols show ?thesis by blast
  next
    case False
    from Cons.IH [OF Cons.prems(1) d vs, of h] obtain df' where
      r: "rectify_missing_values_loop rules df h =
            (Inr df', h\<lparr>corrections := corrections h @ fill_corrections df rules\<rparr>)"
      and c': "columns df' = columns df" and n': "nrows df' = nrows df" and wf': "wf_df df'"
      and g: "\<forall>c \<in> set (columns df). get_column df' c =
                (case map_of rules c of None \<Rightarrow> get_column df c
                 | Some v \<Rightarrow> map (fillna v) (get_column df c))"
      by blast
    have run: "rectify_missing_values_loop (rule # rules) df h =
                 rectify_missing_values_loop rules df h"
      using False by (auto simp: rule Let_def)
    have led: "fill_corrections df (rule # rules) = fill_corrections df rules"
      using False by (auto simp: rule fill_corrections_def)
    have cols: "\<forall>c'' \<in> set (columns df). get_column df' c'' =
                (case map_of (rule # rules) c'' of None \<Rightarrow> get_column df c''
                 | Some v \<Rightarrow> map (fillna v) (get_column df c''))"
    proof
      fix c'' assume in0: "c'' \<in> set (columns df)"
      show "get_column df' c'' =
                (case map_of (rule # rules) c'' of None \<Rightarrow> get_column df c''
                 | Some v \<Rightarrow> map (fillna v) (get_column df c''))"
      proof (cases "c'' = c")
        case True
        with in0 False have z: "isna_sum (get_column df c) = 0"
          using isna_sum_nonneg [of "get_column df c"] by auto
        from g in0 mc True have "get_column df' c'' = get_column df c" by simp
        with z True show ?thesis by (simp add: rule fillna_no_nulls)
      next
        case False
        with g in0 show ?thesis by (simp add: rule)
      qed
    qed
    from r run led have res: "rectify_missing_values_loop (rule # rules) df h =
        (Inr df', h\<lparr>corrections := corrections h @ fill_corrections df (rule # rules)\<rparr>)"
      by (simp only:)
    from res c' n' wf' cols show ?thesis by blast
  qed
qed


lemma fill_corrections_about:
  assumes "distinct (map fst rules)"
  shows "filter (\<lambda>r. action_column (corr_action r) = Some c) (fill_corrections df rules) =
     (case map_of rules c of
        None \<Rightarrow> []
      | Some v \<Rightarrow>
          if c \<in> set (columns df) \<and> 0 < isna_sum (get_column df c)
          then [\<lparr>corr_stage = ''missing_values'',
                 corr_action = FilledMissingValues (isna_sum (get_column df c)) c v,
                 affected_rows = isna_sum (get_column df c)\<rparr>]
          else [])"
  using assms
proof (induction rules)
  case Nil
  show ?case by (simp add: fill_corrections_def)
next
  case (Cons rule rules)
  obtain c' v' where rule: "rule = (c', v')" by (cases rule)
  from Cons.prems rule have d: "distinct (map fst rules)" and cn: "c' \<notin> fst ` set rules"
    by auto
  have split: "fill_corrections df ((c', v') # rules) =
      (if c' \<in> set (columns df) \<and> isna_sum (get_column df c') > 0
       then [\<lparr>corr_stage = ''missing_values'',
              corr_action = FilledMissingValues (isna_sum (get_column df c')) c' v',
              affected_rows = isna_sum (get_column df c')\<rparr>]
       else []) @ fill_corrections df rules"
    by (simp add: fill_corrections_def)
  show ?case
  proof (cases "c = c'")
    case True
    with cn have "map_of rules c = None" by (simp add: map_of_eq_None_iff)
    with Cons.IH [OF d] True show ?thesis
      unfolding rule split by simp
  next
    case False
    with Cons.IH [OF d] show ?thesis
      unfolding rule split by simp
  qed
qed

text \<open>
  C7. On a table with unique labels, for fill rules with distinct columns and non-null
  fill values, \<open>rectify_missing_values\<close> returns a table with the same labels and
  rows in which every column with a rule has exactly its null cells replaced by the fill
  value, and every other cell is unchanged. For each rule, the ledger gains exactly one
  correction about its column, with affected rows \<open>k\<close>, when the column exists and
  holds \<open>k > 0\<close> nulls, and none otherwise; errors and warnings are unchanged.
\<close>

theorem rectify_missing_values_fills:
  assumes "wf_df df" "distinct (map fst rules)" "\<forall>(c, v) \<in> set rules. v \<noteq> Null"
  shows "\<exists>df'. fst (rectify_missing_values df (Some rules) h) = Inr df'
     \<and> columns df' = columns df \<and> nrows df' = nrows df
     \<and> (\<forall>c \<in> set (columns df). get_column df' c =
           (case map_of rules c of
              None \<Rightarrow> get_column df c
            | Some v \<Rightarrow> map (\<lambda>x. if x = Null then v else x) (get_column df c)))
     \<and> errors (snd (rectify_missing_values df (Some rules) h)) = errors h
     \<and> warnings (snd (rectify_missing_values df (Some rules) h)) = warnings h
     \<and> (\<exists>new. corrections (snd (rectify_missing_values df (Some rules) h)) = corrections h @ new
          \<and> length new \<le> length rules
          \<and> (\<forall>(c, v) \<in> set rules.
                filter (\<lambda>r. action_column (corr_action r) = Some c) new =
                  (if c \<in> set (columns df) \<and> 0 < isna_sum (get_column df c)
                   then [\<lparr>corr_stage = ''missing_values'',
                          corr_action = FilledMissingValues (isna_sum (get_column df c)) c v,
                          affected_rows = isna_sum (get_column df c)\<rparr>]
                   else [])))"
proof -
  from rectify_missing_values_loop_spec [OF assms, of h] obtain df' where
    r: "rectify_missing_values_loop rules df h =
          (Inr df', h\<lparr>corrections := corrections h @ fill_corrections df rules\<rparr>)"
    and c': "columns df' = columns df" and n': "nrows df' = nrows df"
    and g: "\<forall>c \<in> set (columns df). get_column df' c =
              (case map_of rules c of None \<Rightarrow> get_column df c
               | Some v \<Rightarrow> map (fillna v) (get_column df c))"
    by blast
  have f: "fillna v = (\<lambda>x. if x = Null then v else x)" for v
    by (rule ext) (simp add: fillna_def)
  have run: "rectify_missing_values df (Some rules) h =
          (Inr df', h\<lparr>corrections := corrections h @ fill_corrections df rules\<rparr>)"
    using r by (simp add: rectify_missing_values_def)
  have len: "length (fill_corrections df rules) \<le> length rules"
    unfolding fill_corrections_def by (induction rules) auto
  have about: "\<forall>(c, v) \<in> set rules.
          filter (\<lambda>r. action_column (corr_action r) = Some c) (fill_corrections df rules) =
            (if c \<in> set (columns df) \<and> 0 < isna_sum (get_column df c)
             then [\<lparr>corr_stage = ''missing_values'',
                    corr_action = FilledMissingValues (isna_sum (get_column df c)) c v,
                    affected_rows = isna_sum (get_column df c)\<rparr>]
             else [])"
  proof (clarify)
    fix c v assume "(c, v) \<in> set rules"
    with assms(2) have "map_of rules c = Some v" by simp
    with fill_corrections_about [OF assms(2), of c df]
    show "filter (\<lambda>r. action_column (corr_action r) = Some c) (fill_corrections df rules) =
            (if c \<in> set (columns df) \<and> 0 < isna_sum (get_column df c)
             then [\<lparr>corr_stage = ''missing_values'',
                    corr_action = FilledMissingValues (isna_sum (get_column df c)) c v,
                    affected_rows = isna_sum (get_column df c)\<rparr>]
             else [])"
      by simp
  qed
  have corr: "\<exists>new. corrections (snd (rectify_missing_values df (Some rules) h)) = corrections h @ new
          \<and> length new \<le> length rules
          \<and> (\<forall>(c, v) \<in> set rules.
                filter (\<lambda>r. action_column (corr_action r) = Some c) new =
                  (if c \<in> set (columns df) \<and> 0 < isna_sum (get_column df c)
                   then [\<lparr>corr_stage = ''missing_values'',
                          corr_action = FilledMissingValues (isna_sum (get_column df c)) c v,
                          affected_rows = isna_sum (get_column df c)\<rparr>]
                   else []))"
    using len about by (intro exI [of _ "fill_corrections df rules"]) (simp add: run)
  note g' = g [unfolded f]
  have "fst (rectify_missing_values df (Some rules) h) = Inr df'"
    and "errors (snd (rectify_missing_values df (Some rules) h)) = errors h"
    and "warnings (snd (rectify_missing_values df (Some rules) h)) = warnings h"
    by (simp_all add: run)
  with c' n' g' corr show ?thesis by blast
qed

lemma rectify_missing_values_example:
  "rectify_missing_values example_staff (Some example_rules) new_error_handler =
     (Inr \<lparr>columns = [''name'', ''dept''],
           rows = [[Str ''ann'', Str ''Unassigned''], [Null, Str ''ops''],
                   [Str ''bob'', Str ''Unassigned'']]\<rparr>,
      \<lparr>errors = [], warnings = [],
       corrections = [\<lparr>corr_stage = ''missing_values'',
                       corr_action = FilledMissingValues 2 ''dept'' (Str ''Unassigned''),
                       affected_rows = 2\<rparr>]\<rparr>)"
  by (simp add: rectify_missing_values_def example_staff_def example_rules_def
        new_error_handler_def Let_def isna_sum_def get_column_def cell_at_def apply_column_def
        fillna_def log_correction_def)

theorem rectify_missing_values_fills_witness:
  "wf_df example_staff \<and> distinct (map fst example_rules)
   \<and> example_rules = [(''dept'', Str ''Unassigned''), (''gender'', Str ''Unknown'')]
   \<and> get_column \<lparr>columns = [''name'', ''dept''],
           rows = [[Str ''ann'', Str ''Unassigned''], [Null, Str ''ops''],
                   [Str ''bob'', Str ''Unassigned'']]\<rparr> ''dept''
       = map (\<lambda>x. if x = Null then Str ''Unassigned'' else x) (get_column example_staff ''dept'')"
proof -
  have w: "wf_df example_staff"
    by (simp add: wf_df_def example_staff_def)
  have d: "distinct (map fst example_rules)"
    by (simp add: example_rules_def)
  have n: "\<forall>(c, v) \<in> set example_rules. v \<noteq> Null"
    by (simp add: example_rules_def)
  from rectify_missing_values_fills [OF w d n, of new_error_handler] obtain df' where
    "fst (rectify_missing_values example_staff (Some example_rules) new_error_handler) = Inr df'"
    and g: "\<forall>c \<in> set (columns example_staff). get_column df' c =
           (case map_of example_rules c of
              None \<Rightarrow> get_column example_staff c
            | Some v \<Rightarrow> map (\<lambda>x. if x = Null then v else x) (get_column example_staff c))"
    by blast
  then have df': "df' = \<lparr>columns = [''name'', ''dept''],
           rows = [[Str ''ann'', Str ''Unassigned''], [Null, Str ''ops''],
                   [Str ''bob'', Str ''Unassigned'']]\<rparr>"
    by (simp add: rectify_missing_values_example)
  have "''dept'' \<in> set (columns example_staff)"
    by (simp add: example_staff_def)
  with g have "get_column df' ''dept'' =
      (case map_of example_rules ''dept'' of
              None \<Rightarrow> get_column example_staff ''dept''
            | Some v \<Rightarrow> map (\<lambda>x. if x = Null then v else x) (get_column example_staff ''dept''))"
    by blast
  then have "get_column df' ''dept'' =
      map (\<lambda>x. if x = Null then Str ''Unassigned'' else x) (get_column example_staff ''dept'')"
    by (simp add: example_rules_def)
  with w d show ?thesis by (simp only: df' simp_thms example_rules_def)
qed

subsection \<open>Data types\<close>








subsection \<open>Consolidation\<close>








lemma consolidate_example:
  "consolidate example_two_sources =
     (True, example_two_sources\<lparr>consolidated_data :=
        Some \<lparr>columns = [''employee_id'', ''source'', ''email''],
              rows = [[Num 1, Str ''hr'', Null], [Num 2, Str ''hr'', Null],
                      [Null, Str ''crm'', Str ''a@x'']]\<rparr>\<rparr>)"
  by (simp add: consolidate_def dataframes_def example_two_sources_def pd_concat_def
        union_columns_def reindex_row_def cell_at_def)


subsection \<open>Transformation\<close>


subsection \<open>The run when every source fails\<close>

lemma registry_core_set_status [simp]: "registry_core (set_status n st s) = registry_core s"
proof -
  have "(case (case x of (k, i) \<Rightarrow> if k = n then (k, i\<lparr>status := st\<rparr>) else (k, i)) of
           (n, i) \<Rightarrow> (n, filename i, mapping i, data i)) =
        (case x of (n, i) \<Rightarrow> (n, filename i, mapping i, data i))" for x :: "string \<times> source_info"
    by (cases x) simp
  then show ?thesis
    by (simp add: registry_core_def set_status_def o_def)
qed

lemma registry_core_handler [simp]:
  "registry_core (s\<lparr>error_handler := h\<rparr>) = registry_core s"
  "registry_core (with_handler f s) = registry_core s"
  by (simp_all add: registry_core_def with_handler_def)

lemma same_registry_refl [simp]: "same_registry s s"
  by (simp add: same_registry_def)

lemma same_registry_trans: "same_registry s s1 \<Longrightarrow> same_registry s1 s2 \<Longrightarrow> same_registry s s2"
  by (simp add: same_registry_def)

lemma set_status_handler [simp]:
  "set_status n st (s\<lparr>error_handler := h\<rparr>) = (set_status n st s)\<lparr>error_handler := h\<rparr>"
  by (simp add: set_status_def)

lemma process_source_fails:
  assumes "map_of (data_sources s) n = Some i" "source_fails w i"
  shows "\<exists>s1. process_source p w n (s, ok, failed) = (s1, ok, failed @ [n])
           \<and> same_registry s s1
           \<and> errors (error_handler s1) = errors (error_handler s) @ source_errors w (n, i)
           \<and> corrections (error_handler s1) = corrections (error_handler s)
           \<and> consolidated_data s1 = consolidated_data s
           \<and> transformed_data s1 = transformed_data s
           \<and> pipeline_status s1 = pipeline_status s"
proof (cases "input_files w (filename i)")
  case Missing
  with assms show ?thesis
    by (simp add: process_source_def extract_source_def validate_file_exists_def Let_def
          source_errors_def same_registry_def)
next
  case (ReadFails e)
  with assms show ?thesis
    by (simp add: process_source_def extract_source_def validate_file_exists_def Let_def
          source_errors_def same_registry_def)
next
  case (Frame df)
  show ?thesis
  proof (cases "columns df = [] \<or> rows df = []")
    case True
    with assms Frame show ?thesis
      by (auto simp: process_source_def extract_source_def validate_file_exists_def Let_def
            source_errors_def validate_dataframe_def nrows_def same_registry_def)
  next
    case False
    with assms(2) Frame have nomatch: "\<forall>col \<in> set (map fst (mapping i)). col \<notin> set (columns df)"
      by (simp add: source_fails_def list_all_iff)
    then have av: "filter (\<lambda>col. col \<in> set (columns df)) (map fst (mapping i)) = []"
      by (auto simp: filter_empty_conv)
    from False assms(1) Frame show ?thesis
      by (simp add: process_source_def extract_source_def validate_file_exists_def Let_def
            source_errors_def validate_dataframe_def nrows_def map_columns_def
            map_of_set_status av same_registry_def)
  qed
qed


lemma map_of_registry_core:
  "map_of (registry_core s) n =
     map_option (\<lambda>i. (filename i, mapping i, data i)) (map_of (data_sources s) n)"
  by (simp add: registry_core_def map_of_map)


lemma same_registry_lookup:
  assumes "same_registry s s1" "map_of (data_sources s) n = Some i"
  shows "\<exists>i1. map_of (data_sources s1) n = Some i1
           \<and> filename i1 = filename i \<and> mapping i1 = mapping i \<and> data i1 = data i"
proof -
  from assms(1) have "map_of (registry_core s1) n = map_of (registry_core s) n"
    by (simp add: same_registry_def)
  with assms(2) have "map_option (\<lambda>i. (filename i, mapping i, data i)) (map_of (data_sources s1) n)
      = Some (filename i, mapping i, data i)"
    by (simp add: map_of_registry_core)
  then show ?thesis by auto
qed

lemma source_fails_cong:
  "filename i1 = filename i \<Longrightarrow> mapping i1 = mapping i \<Longrightarrow> source_fails w i1 = source_fails w i"
  by (simp add: source_fails_def split: read_result.splits)

lemma source_errors_cong:
  "filename i1 = filename i \<Longrightarrow> source_errors w (n, i1) = source_errors w (n, i)"
  by (simp add: source_errors_def split: read_result.splits)

lemma extract_and_map_loop_all_fail:
  assumes "\<forall>n \<in> set names. \<exists>i. map_of (data_sources s) n = Some i \<and> source_fails w i"
  shows "\<exists>s'. extract_and_map_loop p w names (s, ok, failed) = (s', ok, failed @ names)
           \<and> same_registry s s'
           \<and> errors (error_handler s') =
               errors (error_handler s) @
               concat (map (\<lambda>n. source_errors w (n, the (map_of (data_sources s) n))) names)
           \<and> corrections (error_handler s') = corrections (error_handler s)
           \<and> consolidated_data s' = consolidated_data s
           \<and> transformed_data s' = transformed_data s
           \<and> pipeline_status s' = pipeline_status s"
  using assms
proof (induction names arbitrary: s failed)
  case Nil
  show ?case by (simp add: extract_and_map_loop_def)
next
  case (Cons n names)
  from Cons.prems obtain i where i: "map_of (data_sources s) n = Some i" and f: "source_fails w i"
    by auto
  from process_source_fails [OF i f, of p ok failed] obtain s1 where
    step: "process_source p w n (s, ok, failed) = (s1, ok, failed @ [n])"
    and reg: "same_registry s s1"
    and err: "errors (error_handler s1) = errors (error_handler s) @ source_errors w (n, i)"
    and cor: "corrections (error_handler s1) = corrections (error_handler s)"
    and con: "consolidated_data s1 = consolidated_data s"
    and tra: "transformed_data s1 = transformed_data s"
    and pst: "pipeline_status s1 = pipeline_status s"
    by blast
  have look: "\<exists>j1. map_of (data_sources s1) m = Some j1 \<and> source_fails w j1
                \<and> source_errors w (m, j1) = source_errors w (m, the (map_of (data_sources s) m))"
    if "m \<in> set names" for m
  proof -
    from that Cons.prems obtain j where j: "map_of (data_sources s) m = Some j" and fj: "source_fails w j"
      by auto
    from same_registry_lookup [OF reg j] obtain j1 where
      j1: "map_of (data_sources s1) m = Some j1" and fn: "filename j1 = filename j"
      and mp: "mapping j1 = mapping j"
      by blast
    from fj have "source_fails w j1" by (simp only: source_fails_cong [OF fn mp])
    moreover from fn have "source_errors w (m, j1) = source_errors w (m, j)"
      by (rule source_errors_cong)
    ultimately show ?thesis using j1 j by simp
  qed
  then have pre: "\<forall>m \<in> set names. \<exists>j. map_of (data_sources s1) m = Some j \<and> source_fails w j"
    by blast
  from Cons.IH [OF pre, of "failed @ [n]"] obtain s' where
    run: "extract_and_map_loop p w names (s1, ok, failed @ [n]) = (s', ok, (failed @ [n]) @ names)"
    and reg': "same_registry s1 s'"
    and err': "errors (error_handler s') =
               errors (error_handler s1) @
               concat (map (\<lambda>m. source_errors w (m, the (map_of (data_sources s1) m))) names)"
    and cor': "corrections (error_handler s') = corrections (error_handler s1)"
    and con': "consolidated_data s' = consolidated_data s1"
    and tra': "transformed_data s' = transformed_data s1"
    and pst': "pipeline_status s' = pipeline_status s1"
    by blast
  have same_errs: "map (\<lambda>m. source_errors w (m, the (map_of (data_sources s1) m))) names =
                   map (\<lambda>m. source_errors w (m, the (map_of (data_sources s) m))) names"
  proof (rule map_cong [OF refl])
    fix m assume "m \<in> set names"
    from look [OF this] show "source_errors w (m, the (map_of (data_sources s1) m)) =
                              source_errors w (m, the (map_of (data_sources s) m))"
      by auto
  qed
  have r1: "extract_and_map_loop p w (n # names) (s, ok, failed) = (s', ok, failed @ n # names)"
    using step run by (simp add: extract_and_map_loop_def)
  have r2: "same_registry s s'" using reg reg' by (rule same_registry_trans)
  have r3: "errors (error_handler s') =
               errors (error_handler s) @
               concat (map (\<lambda>n. source_errors w (n, the (map_of (data_sources s) n))) (n # names))"
    using err' err i by (simp add: same_errs)
  from r1 r2 r3 cor cor' con con' tra tra' pst pst' show ?case by simp
qed

lemma lookup_entries:
  assumes "distinct (map fst l)"
  shows "map (\<lambda>n. f (n, the (map_of l n))) (map fst l) = map f l"
  using assms
proof (induction l)
  case Nil
  show ?case by simp
next
  case (Cons x l)
  obtain k v where x: "x = (k, v)" by (cases x)
  from Cons.prems x have kn: "k \<notin> fst ` set l" and d: "distinct (map fst l)" by auto
  have "map (\<lambda>n. f (n, the (map_of (x # l) n))) (map fst l) =
        map (\<lambda>n. f (n, the (map_of l n))) (map fst l)"
  proof (rule map_cong [OF refl])
    fix n assume "n \<in> set (map fst l)"
    with kn have "n \<noteq> k" by auto
    then show "f (n, the (map_of (x # l) n)) = f (n, the (map_of l n))"
      by (simp add: x)
  qed
  with Cons.IH [OF d] show ?case by (simp add: x)
qed

lemma length_source_errors:
  "length (concat (map (source_errors w) l)) =
     length (filter (\<lambda>(n, i). \<not> fails_validation w i) l)"
proof (induction l)
  case Nil
  show ?case by simp
next
  case (Cons x l)
  obtain n i where x: "x = (n, i)" by (cases x)
  have "length (source_errors w (n, i)) = (if fails_validation w i then 0 else 1)"
    by (simp add: source_errors_def fails_validation_def split: read_result.splits)
  with Cons.IH show ?case by (simp add: x)
qed


lemma run_state: "fst (snd (run p w f c s d)) = fst (snd (run_phases p w f c s d))"
  by (simp add: run_def split: prod.splits sum.splits option.splits)

lemma run_csv_files:
  "csv_files (snd (snd (run p w f c s d))) = csv_files (snd (snd (run_phases p w f c s d)))"
  by (auto simp: run_def save_error_log_def split: prod.splits sum.splits option.splits)

lemma run_result:
  "fst (run p w f c s d) =
     (case error_log_raises w of
        Some e \<Rightarrow> Inl e
      | None \<Rightarrow>
          if warnings (error_handler (fst (snd (run_phases p w f c s d)))) \<noteq> []
          then Inl (TypeError ''int object is not iterable'')
          else Inr (fst (run_phases p w f c s d)))"
  by (auto simp: run_def save_error_log_def print_error_summary_def get_error_report_def
        split: prod.splits sum.splits option.splits)

lemma run_phases_all_fail:
  assumes "distinct (map fst (data_sources s))"
      and "\<forall>(n, i) \<in> set (data_sources s). source_fails w i"
  shows "\<exists>s'. run_phases p w f c s d = (False, s', d)
           \<and> pipeline_status s' = ''failed_extract''
           \<and> same_registry s s'
           \<and> consolidated_data s' = consolidated_data s
           \<and> transformed_data s' = transformed_data s
           \<and> corrections (error_handler s') = corrections (error_handler s)
           \<and> errors (error_handler s') =
               errors (error_handler s) @ concat (map (source_errors w) (data_sources s)) @
               [\<lparr>err_stage = ''pipeline'', err_msg = ExtractAndMapPhaseFailed,
                 err_details = Details ''No sources processed successfully''\<rparr>]"
proof -
  have pre: "\<forall>n \<in> set (map fst (data_sources s)).
               \<exists>i. map_of (data_sources s) n = Some i \<and> source_fails w i"
  proof
    fix n assume "n \<in> set (map fst (data_sources s))"
    then obtain i where i: "map_of (data_sources s) n = Some i"
      by (metis map_of_eq_None_iff not_Some_eq set_map)
    then have "(n, i) \<in> set (data_sources s)" by (rule map_of_SomeD)
    with assms(2) have "source_fails w i" by auto
    with i show "\<exists>i. map_of (data_sources s) n = Some i \<and> source_fails w i" by blast
  qed
  from extract_and_map_loop_all_fail [OF pre, of p 0 "[]"] obtain s1 where
    loop: "extract_and_map_loop p w (map fst (data_sources s)) (s, 0, []) =
             (s1, 0, [] @ map fst (data_sources s))"
    and reg: "same_registry s s1"
    and err: "errors (error_handler s1) =
               errors (error_handler s) @
               concat (map (\<lambda>n. source_errors w (n, the (map_of (data_sources s) n)))
                         (map fst (data_sources s)))"
    and cor: "corrections (error_handler s1) = corrections (error_handler s)"
    and con: "consolidated_data s1 = consolidated_data s"
    and tra: "transformed_data s1 = transformed_data s"
    by blast
  have all: "extract_and_map_all p w s = (False, s1)"
    using loop by (simp add: extract_and_map_all_def)
  define s' where "s' = (with_handler (log_error ''pipeline'' ExtractAndMapPhaseFailed
                           (Details ''No sources processed successfully'')) s1)
                          \<lparr>pipeline_status := ''failed_extract''\<rparr>"
  have run: "run_phases p w f c s d = (False, s', d)"
    using all by (simp add: run_phases_def s'_def)
  have errs: "errors (error_handler s') =
               errors (error_handler s) @ concat (map (source_errors w) (data_sources s)) @
               [\<lparr>err_stage = ''pipeline'', err_msg = ExtractAndMapPhaseFailed,
                 err_details = Details ''No sources processed successfully''\<rparr>]"
  proof -
    have "errors (error_handler s1) =
            errors (error_handler s) @ concat (map (source_errors w) (data_sources s))"
      by (simp only: err lookup_entries [OF assms(1)])
    then show ?thesis by (simp add: s'_def)
  qed
  have reg': "same_registry s s'"
    using reg by (simp add: s'_def same_registry_def registry_core_def with_handler_def)
  have "pipeline_status s' = ''failed_extract''"
    and "consolidated_data s' = consolidated_data s"
    and "transformed_data s' = transformed_data s"
    and "corrections (error_handler s') = corrections (error_handler s)"
    using con tra cor by (simp_all add: s'_def)
  with run reg' errs show ?thesis by blast
qed

text \<open>
  C5, amended. If every registered source fails extraction, validation or mapping, the
  run sets the status \<open>failed_extract\<close> and does not report success; consolidation,
  transformation and loading leave no trace: the consolidated and the transformed table
  are as before, no table is stored in the registry, no output file is written, and the
  ledger gains exactly the errors of the failing sources followed by the one error of the
  pipeline. Its error count grows by one plus the number of sources that did not fail
  validation, so it exceeds the number of registered sources when no source failed
  validation, as when every file is missing.
\<close>

theorem run_all_sources_fail:
  assumes "distinct (map fst (data_sources s))"
      and "\<forall>(n, i) \<in> set (data_sources s). source_fails w i"
  shows "pipeline_status (fst (snd (run p w f c s d))) = ''failed_extract''
     \<and> fst (run p w f c s d) \<noteq> Inr True
     \<and> consolidated_data (fst (snd (run p w f c s d))) = consolidated_data s
     \<and> transformed_data (fst (snd (run p w f c s d))) = transformed_data s
     \<and> same_registry s (fst (snd (run p w f c s d)))
     \<and> csv_files (snd (snd (run p w f c s d))) = csv_files d
     \<and> corrections (error_handler (fst (snd (run p w f c s d)))) = corrections (error_handler s)
     \<and> errors (error_handler (fst (snd (run p w f c s d)))) =
         errors (error_handler s) @ concat (map (source_errors w) (data_sources s)) @
         [\<lparr>err_stage = ''pipeline'', err_msg = ExtractAndMapPhaseFailed,
           err_details = Details ''No sources processed successfully''\<rparr>]
     \<and> length (errors (error_handler (fst (snd (run p w f c s d))))) =
         length (errors (error_handler s)) +
         length (filter (\<lambda>(n, i). \<not> fails_validation w i) (data_sources s)) + 1
     \<and> (list_all (\<lambda>(n, i). \<not> fails_validation w i) (data_sources s) \<longrightarrow>
          length (data_sources s) <
            length (errors (error_handler (fst (snd (run p w f c s d))))))"
proof -
  from run_phases_all_fail [OF assms, of p f c d] obtain s' where
    ph: "run_phases p w f c s d = (False, s', d)"
    and st: "pipeline_status s' = ''failed_extract''"
    and reg: "same_registry s s'"
    and con: "consolidated_data s' = consolidated_data s"
    and tra: "transformed_data s' = transformed_data s"
    and cor: "corrections (error_handler s') = corrections (error_handler s)"
    and err: "errors (error_handler s') =
               errors (error_handler s) @ concat (map (source_errors w) (data_sources s)) @
               [\<lparr>err_stage = ''pipeline'', err_msg = ExtractAndMapPhaseFailed,
                 err_details = Details ''No sources processed successfully''\<rparr>]"
    by blast
  have S: "fst (snd (run p w f c s d)) = s'"
    by (simp add: run_state ph)
  have D: "csv_files (snd (snd (run p w f c s d))) = csv_files d"
    by (simp add: run_csv_files ph)
  have R: "fst (run p w f c s d) \<noteq> Inr True"
    by (simp add: run_result ph split: option.splits)
  have len: "length (errors (error_handler s')) =
         length (errors (error_handler s)) +
         length (filter (\<lambda>(n, i). \<not> fails_validation w i) (data_sources s)) + 1"
    by (simp add: err length_source_errors)
  have ge: "length (data_sources s) < length (errors (error_handler s'))"
    if "list_all (\<lambda>(n, i). \<not> fails_validation w i) (data_sources s)"
  proof -
    from that have "filter (\<lambda>(n, i). \<not> fails_validation w i) (data_sources s) = data_sources s"
      by (simp add: list_all_iff)
    with len show ?thesis by simp
  qed
  from st reg con tra cor err len ge R D show ?thesis
    unfolding S by blast
qed


lemma example_two_registered_sources:
  "data_sources example_two_registered =
     [(''a'', \<lparr>filename = ''a.csv'', mapping = [(''id'', ''employee_id'')], data = None,
              status = ''registered''\<rparr>),
      (''b'', \<lparr>filename = ''b.csv'', mapping = [(''id'', ''employee_id'')], data = None,
              status = ''registered''\<rparr>)]"
  by (simp add: example_two_registered_def register_source_def init_etl_def)

theorem run_all_sources_fail_witness:
  "distinct (map fst (data_sources example_two_registered))
   \<and> source_fails world_no_files
        \<lparr>filename = ''a.csv'', mapping = [(''id'', ''employee_id'')], data = None,
         status = ''registered''\<rparr>
   \<and> source_fails world_no_files
        \<lparr>filename = ''b.csv'', mapping = [(''id'', ''employee_id'')], data = None,
         status = ''registered''\<rparr>
   \<and> pipeline_status (fst (snd (run pd0 world_no_files ''out.csv'' None example_two_registered empty_disk)))
       = ''failed_extract''
   \<and> length (errors (error_handler
        (fst (snd (run pd0 world_no_files ''out.csv'' None example_two_registered empty_disk))))) = 3
   \<and> consolidated_data
        (fst (snd (run pd0 world_no_files ''out.csv'' None example_two_registered empty_disk))) = None"
proof -
  have d: "distinct (map fst (data_sources example_two_registered))"
    by (simp add: example_two_registered_sources)
  have a: "\<forall>(n, i) \<in> set (data_sources example_two_registered). source_fails world_no_files i"
    by (simp add: example_two_registered_sources source_fails_def world_no_files_def)
  have v: "filter (\<lambda>(n, i). \<not> fails_validation world_no_files i) (data_sources example_two_registered)
             = data_sources example_two_registered"
    by (simp add: example_two_registered_sources fails_validation_def world_no_files_def)
  have e: "errors (error_handler example_two_registered) = []"
    and c: "consolidated_data example_two_registered = None"
    by (simp_all add: example_two_registered_def register_source_def init_etl_def
          new_error_handler_def)
  from run_all_sources_fail [OF d a, of pd0 "''out.csv''" None empty_disk]
  have "pipeline_status (fst (snd (run pd0 world_no_files ''out.csv'' None example_two_registered empty_disk)))
       = ''failed_extract''"
    and "length (errors (error_handler
        (fst (snd (run pd0 world_no_files ''out.csv'' None example_two_registered empty_disk))))) =
          length (errors (error_handler example_two_registered)) +
          length (filter (\<lambda>(n, i). \<not> fails_validation world_no_files i)
                    (data_sources example_two_registered)) + 1"
    and "consolidated_data
        (fst (snd (run pd0 world_no_files ''out.csv'' None example_two_registered empty_disk))) =
          consolidated_data example_two_registered"
    by blast+
  note r = this
  have three: "length (errors (error_handler example_two_registered)) +
          length (filter (\<lambda>(n, i). \<not> fails_validation world_no_files i)
                    (data_sources example_two_registered)) + 1 = 3"
    by (simp only: v e, simp add: example_two_registered_sources)
  from r(2) three have "length (errors (error_handler
        (fst (snd (run pd0 world_no_files ''out.csv'' None example_two_registered empty_disk))))) = 3"
    by (simp only:)
  moreover have "source_fails world_no_files
        \<lparr>filename = ''a.csv'', mapping = [(''id'', ''employee_id'')], data = None,
         status = ''registered''\<rparr>"
    and "source_fails world_no_files
        \<lparr>filename = ''b.csv'', mapping = [(''id'', ''employee_id'')], data = None,
         status = ''registered''\<rparr>"
    by (simp_all add: source_fails_def world_no_files_def)
  ultimately show ?thesis
    using r(1) r(3) c d by (simp only: simp_thms)
qed

lemma header_only_fails:
  "source_fails world_header_only
     \<lparr>filename = ''a.csv'', mapping = [(''id'', ''employee_id'')], data = None,
      status = ''registered''\<rparr>"
  "source_fails world_header_only
     \<lparr>filename = ''b.csv'', mapping = [(''id'', ''employee_id'')], data = None,
      status = ''registered''\<rparr>"
  by (simp_all add: source_fails_def world_header_only_def)

text \<open>
  C5 as stated fails on the error count: two sources whose files hold a header and no
  row fail validation, which logs warnings; the ledger then holds the single error of the
  pipeline, fewer than the two registered sources.
\<close>

theorem run_all_sources_fail_counterexample:
  "data_sources example_two_registered =
     [(''a'', \<lparr>filename = ''a.csv'', mapping = [(''id'', ''employee_id'')], data = None,
              status = ''registered''\<rparr>),
      (''b'', \<lparr>filename = ''b.csv'', mapping = [(''id'', ''employee_id'')], data = None,
              status = ''registered''\<rparr>)]
   \<and> source_fails world_header_only
        \<lparr>filename = ''a.csv'', mapping = [(''id'', ''employee_id'')], data = None,
         status = ''registered''\<rparr>
   \<and> source_fails world_header_only
        \<lparr>filename = ''b.csv'', mapping = [(''id'', ''employee_id'')], data = None,
         status = ''registered''\<rparr>
   \<and> pipeline_status
        (fst (snd (run pd0 world_header_only ''out.csv'' None example_two_registered empty_disk)))
       = ''failed_extract''
   \<and> errors (error_handler
        (fst (snd (run pd0 world_header_only ''out.csv'' None example_two_registered empty_disk))))
       = [\<lparr>err_stage = ''pipeline'', err_msg = ExtractAndMapPhaseFailed,
           err_details = Details ''No sources processed successfully''\<rparr>]
   \<and> \<not> length (data_sources example_two_registered)
         \<le> length (errors (error_handler
              (fst (snd (run pd0 world_header_only ''out.csv'' None example_two_registered
                           empty_disk)))))"
proof -
  have d: "distinct (map fst (data_sources example_two_registered))"
    by (simp add: example_two_registered_sources)
  have a: "\<forall>(n, i) \<in> set (data_sources example_two_registered). source_fails world_header_only i"
    by (simp add: example_two_registered_sources header_only_fails)
  have e: "errors (error_handler example_two_registered) = []"
    by (simp add: example_two_registered_def register_source_def init_etl_def
          new_error_handler_def)
  have z: "concat (map (source_errors world_header_only) (data_sources example_two_registered)) = []"
    by (simp add: example_two_registered_sources source_errors_def world_header_only_def)
  from run_phases_all_fail [OF d a, of pd0 "''out.csv''" None empty_disk] obtain s' where
    ph: "run_phases pd0 world_header_only ''out.csv'' None example_two_registered empty_disk
           = (False, s', empty_disk)"
    and st: "pipeline_status s' = ''failed_extract''"
    and err: "errors (error_handler s') =
               errors (error_handler example_two_registered) @
               concat (map (source_errors world_header_only) (data_sources example_two_registered)) @
               [\<lparr>err_stage = ''pipeline'', err_msg = ExtractAndMapPhaseFailed,
                 err_details = Details ''No sources processed successfully''\<rparr>]"
    by blast
  have S: "fst (snd (run pd0 world_header_only ''out.csv'' None example_two_registered empty_disk)) = s'"
    by (simp add: run_state ph)
  from err have err': "errors (error_handler s') =
       [\<lparr>err_stage = ''pipeline'', err_msg = ExtractAndMapPhaseFailed,
         err_details = Details ''No sources processed successfully''\<rparr>]"
    by (simp only: e z append_Nil)
  show ?thesis
    unfolding S by (simp add: st err' example_two_registered_sources header_only_fails)
qed

subsection \<open>What a run returns\<close>

lemma plain_names:
  "\<not> is_date_column ''employee_id''" "\<not> is_numeric_column ''employee_id''"
  "\<not> is_date_column ''source''" "\<not> is_numeric_column ''source''"
  by code_simp+

lemma extract_and_map_all_hr:
  "extract_and_map_all pd0 world_hr example_hr_etl = (True, example_hr_mapped)"
  by (simp add: extract_and_map_all_def extract_and_map_loop_def process_source_def
        extract_source_def map_columns_def validate_file_exists_def validate_dataframe_def
        example_hr_etl_def world_hr_def register_source_def init_etl_def new_error_handler_def
        set_status_def set_data_def with_handler_def log_warning_def Let_def nrows_def
        select_columns_def rename_columns_def assign_scalar_def cell_at_def
        rectify_mapped_def rectify_data_types_def plain_names rectify_duplicates_def
        example_hr_mapped_def example_hr_table_def)

lemma consolidate_hr:
  "consolidate example_hr_mapped =
     (True, example_hr_mapped\<lparr>consolidated_data := Some example_hr_table\<rparr>)"
  by (simp add: consolidate_def dataframes_def pd_concat_def union_columns_def reindex_row_def
        cell_at_def example_hr_mapped_def example_hr_table_def)

lemma transform_hr:
  "transform pd0 None (example_hr_mapped\<lparr>consolidated_data := Some example_hr_table\<rparr>) =
     (True, example_hr_mapped\<lparr>consolidated_data := Some example_hr_table,
                              transformed_data := Some example_hr_table\<rparr>)"
  by (simp add: transform_def transform_steps_def config_truthy_def cfg_fill_rules_def
        cfg_date_columns_def cfg_remove_duplicates_def cfg_final_columns_def
        normalize_gender_column_def format_date_columns_def fill_step_def duplicates_step_def
        final_columns_step_def example_hr_mapped_def example_hr_table_def)

lemma load_hr:
  "load world_hr ''out.csv''
     (example_hr_mapped\<lparr>consolidated_data := Some example_hr_table,
                        transformed_data := Some example_hr_table\<rparr>) empty_disk =
     (True,
      example_hr_mapped\<lparr>consolidated_data := Some example_hr_table,
                        transformed_data := Some example_hr_table\<rparr>,
      \<lparr>csv_files = [(''out.csv'', example_hr_table)], error_logs = []\<rparr>)"
  by (simp add: load_def world_hr_def empty_disk_def)

lemma run_phases_hr:
  "run_phases pd0 world_hr ''out.csv'' None example_hr_etl empty_disk =
     (True, example_hr_final, \<lparr>csv_files = [(''out.csv'', example_hr_table)], error_logs = []\<rparr>)"
  by (simp add: run_phases_def extract_and_map_all_hr consolidate_hr transform_hr load_hr
        example_hr_final_def)

text \<open>
  C1. A run whose phases all succeed, with the error log written, still raises: the
  mapping logged one warning (a mapped column is missing from the file), and
  \<open>print_error_summary\<close>, called in the \<open>finally\<close> block, enumerates the integer
  \<open>total_warnings\<close>. The \<open>TypeError\<close> replaces the status \<open>True\<close> that the run was
  about to return. By \<open>run_result\<close> this happens on every run that ends with a warning in
  the ledger and a written error log.
\<close>

theorem run_raises_after_warning:
  "error_log_raises world_hr = None
   \<and> run pd0 world_hr ''out.csv'' None example_hr_etl empty_disk =
       (Inl (TypeError ''int object is not iterable''),
        example_hr_final,
        \<lparr>csv_files = [(''out.csv'', example_hr_table)],
         error_logs = [get_error_report (error_handler example_hr_final)]\<rparr>)
   \<and> pipeline_status example_hr_final = ''completed_successfully''
   \<and> warnings (error_handler example_hr_final) =
       [\<lparr>warn_stage = ''mapping_hr'', warn_msg = MissingColumnsInMapping [''name'']\<rparr>]"
proof -
  have w: "error_log_raises world_hr = None"
    by (simp add: world_hr_def)
  have f: "pipeline_status example_hr_final = ''completed_successfully''"
      "warnings (error_handler example_hr_final) =
       [\<lparr>warn_stage = ''mapping_hr'', warn_msg = MissingColumnsInMapping [''name'']\<rparr>]"
    by (simp_all add: example_hr_final_def example_hr_mapped_def)
  have "run pd0 world_hr ''out.csv'' None example_hr_etl empty_disk =
       (Inl (TypeError ''int object is not iterable''),
        example_hr_final,
        \<lparr>csv_files = [(''out.csv'', example_hr_table)],
         error_logs = [get_error_report (error_handler example_hr_final)]\<rparr>)"
    by (simp add: run_def run_phases_hr save_error_log_def w print_error_summary_def f
          get_error_report_def)
  with w f show ?thesis by simp
qed

end
